theory Spec2Isabelle
  imports Complex_Main "HOL-Library.AList"
begin

section \<open>Python values, dictionaries and exceptions\<close>

text \<open>
  A Python \<open>float\<close> is an IEEE double: a finite double is given by the rational it
  denotes, and every operation rounds its exact result to the nearest double
  (\<open>round_to_double\<close> below). The sign of a zero is not modelled.
\<close>

datatype pyfloat = Finite rat | PosInf | NegInf | NaN

text \<open>A \<open>datetime\<close> produced by \<open>strptime\<close> with a date-only format: year, month, day.\<close>

type_synonym pydate = "nat \<times> nat \<times> nat"

datatype pyval =
    PNone
  | PInt int
  | PFloat pyfloat
  | PStr string
  | PDateTime pydate

datatype exn =
    ValueError
  | AttributeError
  | IndexError
  | TypeError
  | ZeroDivisionError
  | OverflowError
  | StopIteration
  | KeyError
  | RequestException

text \<open>
  A \<open>dict\<close> keeps its keys in insertion order: an association list with distinct keys,
  where assigning to a present key replaces the value in place and assigning to an
  absent key appends.
\<close>

type_synonym pydict = "(string \<times> pyval) list"

definition dict_get :: "('k \<times> 'v) list \<Rightarrow> 'k \<Rightarrow> 'v \<Rightarrow> 'v" where
  "dict_get d k dflt = (case map_of d k of None \<Rightarrow> dflt | Some v \<Rightarrow> v)"

definition dict_set :: "('k \<times> 'v) list \<Rightarrow> 'k \<Rightarrow> 'v \<Rightarrow> ('k \<times> 'v) list" where
  "dict_set d k v = AList.update k v d"

definition dict_del :: "('k \<times> 'v) list \<Rightarrow> 'k \<Rightarrow> ('k \<times> 'v) list" where
  "dict_del d k = AList.delete k d"

section \<open>Configuration\<close>

definition GRIST_MASTER_SCHEMA :: "string list" where
  "GRIST_MASTER_SCHEMA =
    [''Date'', ''Town'', ''Region'', ''Median_Sale_Price'', ''Median_List_Price'',
     ''Overall_Average_Premium_Paid'', ''Median_DOM'', ''Avg_Home_Premium'',
     ''Avg_Home_DOM'', ''Hot_Home_Premium'', ''Hot_Home_DOM'', ''Num_of_Homes_Sold'',
     ''Compete_Score'']"

section \<open>Strings\<close>

text \<open>
  A character is a code point below 256. \<open>is_space\<close> is \<open>str.isspace\<close> and the
  class \<open>\s\<close> of \<open>re\<close>; \<open>is_digit\<close> is the class \<open>\d\<close>; \<open>is_alpha\<close> is
  the class \<open>[A-Za-z]\<close>.
\<close>

definition is_space :: "char \<Rightarrow> bool" where
  "is_space c = (c \<in> set [CHR 0x09, CHR 0x0A, CHR 0x0B, CHR 0x0C, CHR 0x0D, CHR 0x1C,
     CHR 0x1D, CHR 0x1E, CHR 0x1F, CHR 0x20, CHR 0x85, CHR 0xA0])"

definition is_digit :: "char \<Rightarrow> bool" where
  "is_digit c = (c \<in> set ''0123456789'')"

definition is_alpha :: "char \<Rightarrow> bool" where
  "is_alpha c = (c \<in> set ''ABCDEFGHIJKLMNOPQRSTUVWXYZabcdefghijklmnopqrstuvwxyz'')"

definition py_strip :: "string \<Rightarrow> string" where
  "py_strip s = rev (dropWhile is_space (rev (dropWhile is_space s)))"

text \<open>\<open>text.replace(c, '')\<close> for a one-character \<open>c\<close>.\<close>

definition remove_char :: "char \<Rightarrow> string \<Rightarrow> string" where
  "remove_char c s = filter (\<lambda>x. x \<noteq> c) s"

text \<open>\<open>re.sub(r'[^\d]', '', text)\<close>.\<close>

definition keep_digits :: "string \<Rightarrow> string" where
  "keep_digits s = filter is_digit s"

definition to_lower :: "char \<Rightarrow> char" where
  "to_lower c = (case map_of (zip ''ABCDEFGHIJKLMNOPQRSTUVWXYZ'' ''abcdefghijklmnopqrstuvwxyz'') c of
     None \<Rightarrow> c | Some l \<Rightarrow> l)"

definition digit_val :: "char \<Rightarrow> nat" where
  "digit_val c = (case map_of (zip ''0123456789'' [0, 1, 2, 3, 4, 5, 6, 7, 8, 9]) c of
     None \<Rightarrow> 0 | Some n \<Rightarrow> n)"

definition digit_char :: "nat \<Rightarrow> char" where
  "digit_char n = ''0123456789'' ! (n mod 10)"

definition nat_of_digits :: "string \<Rightarrow> nat" where
  "nat_of_digits ds = foldl (\<lambda>n c. 10 * n + digit_val c) 0 ds"

section \<open>Doubles\<close>

text \<open>The nearest integer, a tie to the even one.\<close>

definition round_half_even :: "rat \<Rightarrow> int" where
  "round_half_even q =
     (let f = \<lfloor>q\<rfloor>; d = q - of_int f
      in if d < 1 / 2 then f else if d > 1 / 2 then f + 1 else if even f then f else f + 1)"

definition pow2 :: "int \<Rightarrow> rat" where
  "pow2 e = (if e \<ge> 0 then 2 ^ nat e else 1 / 2 ^ nat (- e))"

text \<open>
  The binary exponent of a positive number \<open>a\<close>: the \<open>e\<close> with
  \<open>2 ^ e \<le> a < 2 ^ (e + 1)\<close>, searched upwards from 0 when \<open>a \<ge> 1\<close> and downwards
  otherwise. The search stops at -1022, the exponent of the subnormal numbers, and at
  1024, beyond the largest double.
\<close>

function exp_up :: "rat \<Rightarrow> int \<Rightarrow> int" where
  "exp_up a e = (if a < 2 \<or> e \<ge> 1024 then e else exp_up (a / 2) (e + 1))"
  by pat_completeness auto
termination
  by (relation "measure (\<lambda>(a, e). nat (1024 - e))") auto

function exp_down :: "rat \<Rightarrow> int \<Rightarrow> int" where
  "exp_down a e = (if a \<ge> 1 \<or> e \<le> - 1022 then e else exp_down (a * 2) (e - 1))"
  by pat_completeness auto
termination
  by (relation "measure (\<lambda>(a, e). nat (e + 1022))") auto

declare exp_up.simps [simp del] exp_down.simps [simp del]

definition binary_exponent :: "rat \<Rightarrow> int" where
  "binary_exponent a = (if a \<ge> 1 then exp_up a 0 else exp_down a 0)"

definition overflow_bound :: rat where
  "overflow_bound = 2 ^ 1024"

text \<open>
  Rounding to the nearest double, a tie to the even significand: the number is rounded
  to a multiple of the unit in the last of 53 binary places, and a result of magnitude
  \<open>2 ^ 1024\<close> or more is an infinity.
\<close>

definition round_to_double :: "rat \<Rightarrow> pyfloat" where
  "round_to_double q =
     (if q = 0 then Finite 0
      else
        (let a = \<bar>q\<bar>;
             u = pow2 (binary_exponent a - 52);
             r = of_int (round_half_even (a / u)) * u
         in if r \<ge> overflow_bound then (if q < 0 then NegInf else PosInf)
            else Finite (if q < 0 then - r else r)))"

fun fneg :: "pyfloat \<Rightarrow> pyfloat" where
  "fneg (Finite q) = Finite (- q)"
| "fneg PosInf = NegInf"
| "fneg NegInf = PosInf"
| "fneg NaN = NaN"

section \<open>Number parsing: \<open>int()\<close> and \<open>float()\<close> on text\<close>

text \<open>
  The grammar of both builtins: surrounding whitespace, an optional sign, and digits in
  which single underscores may separate digits. \<open>digits_us\<close> reads the part
  \<open>(["_"] digit)*\<close> that follows a first digit and returns the digits and the rest.
\<close>

fun digits_us :: "string \<Rightarrow> string \<times> string" where
  "digits_us [] = ([], [])"
| "digits_us [c] = (if is_digit c then ([c], []) else ([], [c]))"
| "digits_us (c # d # cs) =
     (if is_digit c then (case digits_us (d # cs) of (ds, r) \<Rightarrow> (c # ds, r))
      else if c = CHR ''_'' \<and> is_digit d then (case digits_us cs of (ds, r) \<Rightarrow> (d # ds, r))
      else ([], c # d # cs))"

definition digitpart :: "string \<Rightarrow> (string \<times> string) option" where
  "digitpart s = (case s of
       [] \<Rightarrow> None
     | c # cs \<Rightarrow> if is_digit c then (case digits_us cs of (ds, r) \<Rightarrow> Some (c # ds, r)) else None)"

text \<open>
  The whitespace the two builtins strip is not \<open>str.isspace\<close>: the control characters
  0x1C to 0x1F are not stripped.
\<close>

definition is_num_space :: "char \<Rightarrow> bool" where
  "is_num_space c = (c \<in> set [CHR 0x09, CHR 0x0A, CHR 0x0B, CHR 0x0C, CHR 0x0D, CHR 0x20,
     CHR 0x85, CHR 0xA0])"

definition num_strip :: "string \<Rightarrow> string" where
  "num_strip s = rev (dropWhile is_num_space (rev (dropWhile is_num_space s)))"

text \<open>An optional sign: whether it is a minus, and the rest.\<close>

definition take_sign :: "string \<Rightarrow> bool \<times> string" where
  "take_sign s = (case s of
       [] \<Rightarrow> (False, [])
     | c # cs \<Rightarrow> if c = CHR ''-'' then (True, cs) else if c = CHR ''+'' then (False, cs)
                else (False, s))"

text \<open>
  \<open>int(text)\<close>; \<open>None\<close> is \<open>ValueError\<close>. The interpreter refuses more than 4300
  digits.
\<close>

definition py_int :: "string \<Rightarrow> int option" where
  "py_int s = (case take_sign (num_strip s) of (neg, u) \<Rightarrow>
     (case digitpart u of
        Some (ds, []) \<Rightarrow>
          if length ds > 4300 then None
          else Some (if neg then - int (nat_of_digits ds) else int (nat_of_digits ds))
      | _ \<Rightarrow> None))"

definition pow10 :: "int \<Rightarrow> rat" where
  "pow10 e = (if e \<ge> 0 then 10 ^ nat e else 1 / 10 ^ nat (- e))"

text \<open>
  The double nearest to the decimal number with integer digits \<open>ip\<close>, fraction digits
  \<open>fp\<close> and exponent \<open>e\<close>: the conversion of \<open>float()\<close> is correctly rounded.
\<close>

definition mk_float :: "bool \<Rightarrow> string \<Rightarrow> string \<Rightarrow> int \<Rightarrow> pyfloat" where
  "mk_float neg ip fp e =
     (let v = round_to_double (of_nat (nat_of_digits (ip @ fp)) * pow10 (e - int (length fp)))
      in if neg then fneg v else v)"

text \<open>The optional exponent \<open>("e" | "E") [sign] digitpart\<close>, which must end the text.\<close>

definition float_exponent :: "bool \<Rightarrow> string \<Rightarrow> string \<Rightarrow> string \<Rightarrow> pyfloat option" where
  "float_exponent neg ip fp r = (case r of
       [] \<Rightarrow> Some (mk_float neg ip fp 0)
     | c # cs \<Rightarrow>
         if c = CHR ''e'' \<or> c = CHR ''E'' then
           (case take_sign cs of (eneg, u) \<Rightarrow>
              (case digitpart u of
                 Some (ds, []) \<Rightarrow>
                   Some (mk_float neg ip fp
                     (if eneg then - int (nat_of_digits ds) else int (nat_of_digits ds)))
               | _ \<Rightarrow> None))
         else None)"

text \<open>\<open>float(text)\<close>; \<open>None\<close> is \<open>ValueError\<close>.\<close>

definition py_float :: "string \<Rightarrow> pyfloat option" where
  "py_float s = (case take_sign (num_strip s) of (neg, u) \<Rightarrow>
     if map to_lower u = ''inf'' \<or> map to_lower u = ''infinity''
       then Some (if neg then NegInf else PosInf)
     else if map to_lower u = ''nan'' then Some NaN
     else (case digitpart u of
        Some (ip, r) \<Rightarrow>
          (case r of
             [] \<Rightarrow> float_exponent neg ip [] r
           | c # r' \<Rightarrow>
               if c = CHR ''.'' then
                 (case digitpart r' of
                    Some (fp, r'') \<Rightarrow> float_exponent neg ip fp r''
                  | None \<Rightarrow> float_exponent neg ip [] r')
               else float_exponent neg ip [] r)
      | None \<Rightarrow>
          (case u of
             [] \<Rightarrow> None
           | c # r' \<Rightarrow>
               if c = CHR ''.'' then
                 (case digitpart r' of
                    Some (fp, r'') \<Rightarrow> float_exponent neg [] fp r''
                  | None \<Rightarrow> None)
               else None)))"

section \<open>Float arithmetic\<close>

text \<open>
  \<open>x / 100\<close> and \<open>x - 1.0\<close> on doubles: the exact quotient and difference, rounded to
  the nearest double.
\<close>

fun float_div_100 :: "pyfloat \<Rightarrow> pyfloat" where
  "float_div_100 (Finite q) = round_to_double (q / 100)"
| "float_div_100 x = x"

fun float_sub_1 :: "pyfloat \<Rightarrow> pyfloat" where
  "float_sub_1 (Finite q) = round_to_double (q - 1)"
| "float_sub_1 x = x"

text \<open>
  \<open>n / x\<close> for an integer \<open>n\<close>: the integer is converted to the nearest double, which
  raises \<open>OverflowError\<close> when it is too large; division by zero raises
  \<open>ZeroDivisionError\<close>; the quotient is rounded to the nearest double.
\<close>

definition int_truediv :: "int \<Rightarrow> pyfloat \<Rightarrow> exn + pyfloat" where
  "int_truediv n x =
     (case round_to_double (of_int n) of
        Finite a \<Rightarrow>
          (case x of
             Finite q \<Rightarrow> if q = 0 then Inl ZeroDivisionError else Inr (round_to_double (a / q))
           | NaN \<Rightarrow> Inr NaN
           | _ \<Rightarrow> Inr (Finite 0))
      | _ \<Rightarrow> Inl OverflowError)"

text \<open>\<open>int(x)\<close> truncates toward zero.\<close>

definition trunc_rat :: "rat \<Rightarrow> int" where
  "trunc_rat q = (if q \<ge> 0 then \<lfloor>q\<rfloor> else \<lceil>q\<rceil>)"

fun int_of_float :: "pyfloat \<Rightarrow> exn + int" where
  "int_of_float (Finite q) = Inr (trunc_rat q)"
| "int_of_float NaN = Inl ValueError"
| "int_of_float x = Inl OverflowError"

text \<open>
  \<open>round(x, 4)\<close>: the double is rounded, as the exact number it is, to the nearest
  multiple of 0.0001, a tie to the even one, and the result is the double nearest to that
  decimal.
\<close>

fun py_round4 :: "pyfloat \<Rightarrow> pyfloat" where
  "py_round4 (Finite q) = round_to_double (of_int (round_half_even (q * 10000)) / 10000)"
| "py_round4 x = x"

section \<open>Dates\<close>

definition isleap :: "nat \<Rightarrow> bool" where
  "isleap year = (year mod 4 = 0 \<and> (year mod 100 \<noteq> 0 \<or> year mod 400 = 0))"

definition mdays :: "nat list" where
  "mdays = [0, 31, 28, 31, 30, 31, 30, 31, 31, 30, 31, 30, 31]"

text \<open>
  The second component of \<open>calendar.monthrange(year, month)\<close>; \<open>None\<close> is the
  \<open>IllegalMonthError\<close> (a \<open>ValueError\<close>) for a month outside 1 to 12.
\<close>

definition monthrange :: "nat \<Rightarrow> nat \<Rightarrow> nat option" where
  "monthrange year month =
     (if 1 \<le> month \<and> month \<le> 12
      then Some (mdays ! month + (if month = 2 \<and> isleap year then 1 else 0))
      else None)"

text \<open>The constructor \<open>date(year, month, day)\<close>; \<open>None\<close> is its \<open>ValueError\<close>.\<close>

definition mk_date :: "nat \<Rightarrow> nat \<Rightarrow> nat \<Rightarrow> pydate option" where
  "mk_date year month day =
     (case monthrange year month of
        None \<Rightarrow> None
      | Some n \<Rightarrow> if 1 \<le> year \<and> year \<le> 9999 \<and> 1 \<le> day \<and> day \<le> n
                  then Some (year, month, day) else None)"

definition datetime_min :: pydate where
  "datetime_min = (1, 1, 1)"

text \<open>\<open>a < b\<close> on two datetimes that both lie at midnight.\<close>

fun date_less :: "pydate \<Rightarrow> pydate \<Rightarrow> bool" where
  "date_less (y1, m1, d1) (y2, m2, d2) =
     (y1 < y2 \<or> (y1 = y2 \<and> (m1 < m2 \<or> (m1 = m2 \<and> d1 < d2))))"

definition month_names :: "string list" where
  "month_names = [''january'', ''february'', ''march'', ''april'', ''may'', ''june'', ''july'',
     ''august'', ''september'', ''october'', ''november'', ''december'']"

text \<open>
  The directive \<open>%B\<close> in the English locale: the alternation of the full month names,
  matched without regard to case. No name is a prefix of another, so the order in which
  the alternatives are tried does not matter. The result is the month number and the rest.
\<close>

fun match_month :: "string \<Rightarrow> string list \<Rightarrow> nat \<Rightarrow> (nat \<times> string) option" where
  "match_month s [] i = None"
| "match_month s (name # names) i =
     (if take (length name) (map to_lower s) = name then Some (i, drop (length name) s)
      else match_month s names (Suc i))"

text \<open>
  \<open>datetime.strptime(s, '%B %Y')\<close>: the month name, one or more whitespace characters,
  four digits, and nothing after them. \<open>None\<close> is \<open>ValueError\<close>, which a year of 0000
  raises too.
\<close>

definition strptime_month_year :: "string \<Rightarrow> pydate option" where
  "strptime_month_year s =
     (case match_month s month_names 1 of
        None \<Rightarrow> None
      | Some (month, r) \<Rightarrow>
          (let ws = takeWhile is_space r; ds = dropWhile is_space r
           in if ws \<noteq> [] \<and> length ds = 4 \<and> list_all is_digit ds \<and> nat_of_digits ds \<noteq> 0
              then Some (nat_of_digits ds, month, 1) else None))"

text \<open>
  The directive \<open>%m\<close> is the regular expression \<open>1[0-2]|0[1-9]|[1-9]\<close> and \<open>%d\<close> is
  \<open>3[0-1]|[1-2]\d|0[1-9]|[1-9]| [1-9]\<close>. Each function lists the alternatives that
  match at the head of the text, in the order a backtracking matcher tries them.
\<close>

definition month_alts :: "string \<Rightarrow> (nat \<times> string) list" where
  "month_alts s =
     (case s of a # b # r \<Rightarrow>
        if a = CHR ''1'' \<and> b \<in> set ''012'' then [(10 + digit_val b, r)] else [] | _ \<Rightarrow> []) @
     (case s of a # b # r \<Rightarrow>
        if a = CHR ''0'' \<and> b \<in> set ''123456789'' then [(digit_val b, r)] else [] | _ \<Rightarrow> []) @
     (case s of a # r \<Rightarrow>
        if a \<in> set ''123456789'' then [(digit_val a, r)] else [] | _ \<Rightarrow> [])"

definition day_alts :: "string \<Rightarrow> (nat \<times> string) list" where
  "day_alts s =
     (case s of a # b # r \<Rightarrow>
        if a = CHR ''3'' \<and> b \<in> set ''01'' then [(30 + digit_val b, r)] else [] | _ \<Rightarrow> []) @
     (case s of a # b # r \<Rightarrow>
        if a \<in> set ''12'' \<and> is_digit b then [(10 * digit_val a + digit_val b, r)] else []
      | _ \<Rightarrow> []) @
     (case s of a # b # r \<Rightarrow>
        if a = CHR ''0'' \<and> b \<in> set ''123456789'' then [(digit_val b, r)] else [] | _ \<Rightarrow> []) @
     (case s of a # r \<Rightarrow>
        if a \<in> set ''123456789'' then [(digit_val a, r)] else [] | _ \<Rightarrow> []) @
     (case s of a # b # r \<Rightarrow>
        if a = CHR '' '' \<and> b \<in> set ''123456789'' then [(digit_val b, r)] else [] | _ \<Rightarrow> [])"

text \<open>
  The first month alternative after which a hyphen and a day match: month, day and the
  text left over.
\<close>

fun month_day_match :: "(nat \<times> string) list \<Rightarrow> (nat \<times> nat \<times> string) option" where
  "month_day_match [] = None"
| "month_day_match ((month, r) # alts) =
     (case r of
        [] \<Rightarrow> month_day_match alts
      | c # r' \<Rightarrow>
          if c = CHR ''-'' then
            (case day_alts r' of
               [] \<Rightarrow> month_day_match alts
             | (day, r'') # _ \<Rightarrow> Some (month, day, r''))
          else month_day_match alts)"

text \<open>
  \<open>datetime.strptime(s, '%Y-%m-%d')\<close>; \<open>None\<close> is \<open>ValueError\<close>: no match, text
  left over, or a date that does not exist.
\<close>

definition strptime_ymd :: "string \<Rightarrow> pydate option" where
  "strptime_ymd s =
     (if length s \<ge> 4 \<and> list_all is_digit (take 4 s) then
        (case drop 4 s of
           [] \<Rightarrow> None
         | c # r \<Rightarrow>
             if c = CHR ''-'' then
               (case month_day_match (month_alts r) of
                  None \<Rightarrow> None
                | Some (month, day, rest) \<Rightarrow>
                    if rest = [] then mk_date (nat_of_digits (take 4 s)) month day else None)
             else None)
      else None)"

function dec :: "nat \<Rightarrow> string" where
  "dec n = (if n < 10 then [digit_char n] else dec (n div 10) @ [digit_char n])"
  by pat_completeness auto
termination
  by (relation "measure id") auto

definition pad2 :: "nat \<Rightarrow> string" where
  "pad2 n = (if n < 10 then CHR ''0'' # dec n else dec n)"

definition pad4 :: "nat \<Rightarrow> string" where
  "pad4 n = replicate (4 - length (dec n)) CHR ''0'' @ dec n"

text \<open>
  \<open>strftime\<close> hands the format to the C library. The directive \<open>%Y\<close> prints the year
  in four digits with the Microsoft C runtime, and without padding with the GNU C library
  (999, not 0999). The flag \<open>#\<close> removes the leading zero of \<open>%m\<close> and \<open>%d\<close> in the
  Microsoft C runtime; the GNU C library accepts the flag and leaves both in two digits.
\<close>

datatype libc = MSVC | GLIBC

fun fmt_year :: "libc \<Rightarrow> nat \<Rightarrow> string" where
  "fmt_year MSVC y = pad4 y"
| "fmt_year GLIBC y = dec y"

text \<open>\<open>strftime('%m/%d/%Y')\<close> and \<open>strftime('%#m/%#d/%Y')\<close>.\<close>

fun strftime_mdY :: "libc \<Rightarrow> pydate \<Rightarrow> string" where
  "strftime_mdY platform (y, m, d) = pad2 m @ ''/'' @ pad2 d @ ''/'' @ fmt_year platform y"

fun strftime_hash_mdY :: "libc \<Rightarrow> pydate \<Rightarrow> string" where
  "strftime_hash_mdY MSVC (y, m, d) = dec m @ ''/'' @ dec d @ ''/'' @ fmt_year MSVC y"
| "strftime_hash_mdY GLIBC (y, m, d) = pad2 m @ ''/'' @ pad2 d @ ''/'' @ fmt_year GLIBC y"

section \<open>Data retrieval functions\<close>

definition get_last_day_of_month :: "libc \<Rightarrow> string \<Rightarrow> string option" where
  "get_last_day_of_month platform month_year_str =
     (case strptime_month_year month_year_str of
        None \<Rightarrow> None
      | Some (year, month, _) \<Rightarrow>
          (case monthrange year month of
             None \<Rightarrow> None
           | Some last_day \<Rightarrow>
               (case mk_date year month last_day of
                  None \<Rightarrow> None
                | Some final_date \<Rightarrow> Some (strftime_hash_mdY platform final_date))))"

text \<open>
  An element found by \<open>select_one\<close> is given by the strings inside it, in document
  order. \<open>get_text(strip=True)\<close> strips each string and joins the ones that are not
  empty; \<open>.text\<close> joins them as they are.
\<close>

type_synonym element = "string list"

definition get_text_strip :: "element \<Rightarrow> string" where
  "get_text_strip e = concat (filter (\<lambda>t. t \<noteq> []) (map py_strip e))"

definition text_of :: "element \<Rightarrow> string" where
  "text_of e = concat e"

definition get_clean_number :: "element option \<Rightarrow> pyval \<Rightarrow> exn + pyval" where
  "get_clean_number element dflt =
     (case element of
        None \<Rightarrow> Inr dflt
      | Some e \<Rightarrow>
          (let text = get_text_strip e
           in if CHR ''%'' \<in> set text then
                (case py_float (remove_char CHR ''-'' (remove_char CHR ''+''
                        (remove_char CHR ''%'' text))) of
                   None \<Rightarrow> Inl ValueError
                 | Some v \<Rightarrow> Inr (PFloat (py_round4 (float_sub_1 (float_div_100 v)))))
              else
                (case py_int (keep_digits text) of
                   None \<Rightarrow> Inr dflt
                 | Some n \<Rightarrow> Inr (PInt n))))"

definition get_clean_premium_percentage :: "element option \<Rightarrow> pyval \<Rightarrow> exn + pyval" where
  "get_clean_premium_percentage element dflt =
     (case element of
        None \<Rightarrow> Inr dflt
      | Some e \<Rightarrow>
          (let text = get_text_strip e;
               clean_text = remove_char CHR ''%'' text
           in case (if CHR ''+'' \<in> set clean_text then py_float (remove_char CHR ''+'' clean_text)
                    else if CHR ''-'' \<in> set clean_text then py_float clean_text
                    else py_float clean_text) of
                None \<Rightarrow> Inr dflt
              | Some v \<Rightarrow> Inr (PFloat (py_round4 (float_div_100 v)))))"

section \<open>Record normalizer\<close>

text \<open>
  \<open>normalize_record_for_grist\<close>: the loop over the schema, threading the dictionary
  under construction.
\<close>

fun normalize_loop :: "pydict \<Rightarrow> string list \<Rightarrow> pydict \<Rightarrow> pydict" where
  "normalize_loop record [] normalized_record = normalized_record"
| "normalize_loop record (key # schema) normalized_record =
     normalize_loop record schema
       (dict_set normalized_record key (dict_get record key PNone))"

definition normalize_record_for_grist :: "pydict \<Rightarrow> string list \<Rightarrow> pydict" where
  "normalize_record_for_grist record schema = normalize_loop record schema []"

section \<open>The CSV time-series parser\<close>

text \<open>\<open>row[i]\<close>: a negative index counts from the end; \<open>None\<close> is \<open>IndexError\<close>.\<close>

definition py_index :: "'a list \<Rightarrow> int \<Rightarrow> 'a option" where
  "py_index xs i =
     (if 0 \<le> i \<and> i < int (length xs) then Some (xs ! nat i)
      else if i < 0 \<and> - i \<le> int (length xs) then Some (xs ! nat (int (length xs) + i))
      else None)"

record csv_indexes =
  DATE :: int
  NEIGHBORHOOD :: int
  VALUE :: int

definition CSV_COL_INDEXES :: csv_indexes where
  "CSV_COL_INDEXES = \<lparr>DATE = 2, NEIGHBORHOOD = 0, VALUE = 4\<rparr>"

type_synonym town_dict = "(string \<times> pydict) list"

text \<open>The dictionary comprehension \<open>{town: {} for town in target_towns}\<close>.\<close>

definition init_town_data :: "string list \<Rightarrow> town_dict" where
  "init_town_data target_towns = foldl (\<lambda>d town. dict_set d town []) [] target_towns"

text \<open>
  The last day of the month of a date, as \<open>strftime('%m/%d/%Y')\<close> prints it; \<open>None\<close>
  is a \<open>ValueError\<close> of \<open>monthrange\<close> or \<open>date\<close>.
\<close>

definition last_day_formatted :: "libc \<Rightarrow> pydate \<Rightarrow> string option" where
  "last_day_formatted platform current_date =
     (case current_date of (year, month, _) \<Rightarrow>
        (case monthrange year month of
           None \<Rightarrow> None
         | Some last_day \<Rightarrow>
             (case mk_date year month last_day of
                None \<Rightarrow> None
              | Some final_date \<Rightarrow> Some (strftime_mdY platform final_date))))"

text \<open>
  The test \<open>not town_data[town] or current_date > town_data[town].get('_DateTimeObject',
  datetime.min)\<close>. Comparing a datetime with a value of another type raises
  \<open>TypeError\<close>.
\<close>

definition is_later :: "pydate \<Rightarrow> pydict \<Rightarrow> exn + bool" where
  "is_later current_date entry =
     (if entry = [] then Inr True
      else (case dict_get entry ''_DateTimeObject'' (PDateTime datetime_min) of
              PDateTime stored \<Rightarrow> Inr (date_less stored current_date)
            | _ \<Rightarrow> Inl TypeError))"

text \<open>The five assignments to \<open>town_data[town]\<close>.\<close>

definition store_row :: "string \<Rightarrow> string \<Rightarrow> pydate \<Rightarrow> string \<Rightarrow> string \<Rightarrow> pydict \<Rightarrow> pydict" where
  "store_row metric_key town current_date formatted_date_str val entry =
     dict_set (dict_set (dict_set (dict_set (dict_set entry
       ''_DateTimeObject'' (PDateTime current_date))
       ''Date'' (PStr formatted_date_str))
       ''Town'' (PStr town))
       ''Region'' (PStr ''New York City''))
       metric_key (PStr val)"

text \<open>The body of the loop over the rows, for one row.\<close>

definition process_row ::
  "libc \<Rightarrow> string \<Rightarrow> string list \<Rightarrow> csv_indexes \<Rightarrow> town_dict \<Rightarrow> string list \<Rightarrow>
   exn + town_dict" where
  "process_row platform metric_key target_towns csv_idx town_data row =
     (case py_index row (NEIGHBORHOOD csv_idx) of
        None \<Rightarrow> Inr town_data
      | Some town \<Rightarrow>
     (case py_index row (DATE csv_idx) of
        None \<Rightarrow> Inr town_data
      | Some date_str \<Rightarrow>
     (case py_index row (VALUE csv_idx) of
        None \<Rightarrow> Inr town_data
      | Some val \<Rightarrow>
          if town \<in> set target_towns then
            (case strptime_ymd date_str of
               None \<Rightarrow> Inl ValueError
             | Some current_date \<Rightarrow>
            (case map_of town_data town of
               None \<Rightarrow> Inl KeyError
             | Some entry \<Rightarrow>
            (case is_later current_date entry of
               Inl e \<Rightarrow> Inl e
             | Inr False \<Rightarrow> Inr town_data
             | Inr True \<Rightarrow>
                 (case last_day_formatted platform current_date of
                    None \<Rightarrow> Inl ValueError
                  | Some formatted_date_str \<Rightarrow>
                      Inr (dict_set town_data town
                             (store_row metric_key town current_date formatted_date_str val
                                entry))))))
          else Inr town_data)))"

fun process_rows ::
  "libc \<Rightarrow> string \<Rightarrow> string list \<Rightarrow> csv_indexes \<Rightarrow> string list list \<Rightarrow> town_dict \<Rightarrow>
   exn + town_dict" where
  "process_rows platform metric_key target_towns csv_idx [] town_data = Inr town_data"
| "process_rows platform metric_key target_towns csv_idx (row # rows) town_data =
     (case process_row platform metric_key target_towns csv_idx town_data row of
        Inl e \<Rightarrow> Inl e
      | Inr town_data' \<Rightarrow>
          process_rows platform metric_key target_towns csv_idx rows town_data')"

text \<open>The clean-up loop that deletes the bookkeeping key.\<close>

definition clean_up :: "town_dict \<Rightarrow> town_dict" where
  "clean_up town_data =
     map (\<lambda>(town, entry).
            (town, if ''_DateTimeObject'' \<in> fst ` set entry
                   then dict_del entry ''_DateTimeObject'' else entry)) town_data"

text \<open>
  \<open>scrape_streeteasy_data\<close>. The argument \<open>response\<close> stands for the fetch of the feed
  and \<open>csv.reader\<close> on its text: an exception of the transport, or the rows of the feed,
  the header row first. The set \<open>target_towns\<close> is given by its elements in iteration
  order. An exception anywhere inside the \<open>try\<close> gives the empty dictionary; \<open>next\<close> on
  a feed with no row raises \<open>StopIteration\<close>.
\<close>

definition scrape_streeteasy_data ::
  "libc \<Rightarrow> exn + string list list \<Rightarrow> string \<Rightarrow> string list \<Rightarrow> csv_indexes \<Rightarrow> town_dict" where
  "scrape_streeteasy_data platform response metric_key target_towns csv_idx =
     (let town_data = init_town_data target_towns
      in case response of
           Inl e \<Rightarrow> []
         | Inr reader \<Rightarrow>
             (case reader of
                [] \<Rightarrow> []
              | header # rows \<Rightarrow>
                  (case process_rows platform metric_key target_towns csv_idx rows town_data of
                     Inl e \<Rightarrow> []
                   | Inr town_data' \<Rightarrow> filter (\<lambda>(k, v). v \<noteq> []) (clean_up town_data'))))"

section \<open>The HTML market-page parser\<close>

text \<open>
  \<open>re.search(r'In\s+([A-Za-z]+\s+\d{4})', text)\<close>: the match that starts at the head
  of the text, and the search for the leftmost match. The result is group 1. The three
  repeated classes exclude each other's next character, so the greedy match is the only
  one.
\<close>

definition match_in_month_year :: "string \<Rightarrow> string option" where
  "match_in_month_year s =
     (case s of
        a # b # r \<Rightarrow>
          if a = CHR ''I'' \<and> b = CHR ''n'' then
            (let r1 = dropWhile is_space r;
                 letters = takeWhile is_alpha r1;
                 r2 = dropWhile is_alpha r1;
                 ws2 = takeWhile is_space r2;
                 r3 = dropWhile is_space r2
             in if takeWhile is_space r \<noteq> [] \<and> letters \<noteq> [] \<and> ws2 \<noteq> [] \<and>
                   length r3 \<ge> 4 \<and> list_all is_digit (take 4 r3)
                then Some (letters @ ws2 @ take 4 r3) else None)
          else None
      | _ \<Rightarrow> None)"

fun re_search_in_month_year :: "string \<Rightarrow> string option" where
  "re_search_in_month_year [] = None"
| "re_search_in_month_year (c # cs) =
     (case match_in_month_year (c # cs) of
        Some g \<Rightarrow> Some g
      | None \<Rightarrow> re_search_in_month_year cs)"

text \<open>The results of the ten \<open>soup.select_one\<close> calls.\<close>

record soup =
  long_date_elem :: "element option"
  sale_price_elem :: "element option"
  ratio_elem :: "element option"
  median_dom_elem :: "element option"
  avg_avg_premium_elem :: "element option"
  avg_avg_dom_elem :: "element option"
  hot_avg_premium_elem :: "element option"
  hot_avg_dom_elem :: "element option"
  num_of_homes_sold_elem :: "element option"
  compete_score_elem :: "element option"

text \<open>
  The inner \<open>try\<close> block: the three critical extractions. \<open>Inr None\<close> is a
  \<open>return None\<close>, which includes the \<open>AttributeError\<close> of calling \<open>get_text\<close> on a
  missing element, caught by the inner handler; \<open>Inl\<close> is an exception that leaves the
  block. The result is the formatted date, the sale price and the ratio.
\<close>

definition core_data :: "libc \<Rightarrow> soup \<Rightarrow> exn + (string \<times> int \<times> pyfloat) option" where
  "core_data platform page =
     (case long_date_elem page of
        None \<Rightarrow> Inr None
      | Some lde \<Rightarrow>
     (case re_search_in_month_year (get_text_strip lde) of
        None \<Rightarrow> Inr None
      | Some month_year_str \<Rightarrow>
     (case get_last_day_of_month platform month_year_str of
        None \<Rightarrow> Inr None
      | Some formatted_date \<Rightarrow>
     (case sale_price_elem page of
        None \<Rightarrow> Inr None
      | Some spe \<Rightarrow>
     (case py_int (keep_digits (get_text_strip spe)) of
        None \<Rightarrow> Inl ValueError
      | Some median_sale_price \<Rightarrow>
     (case ratio_elem page of
        None \<Rightarrow> Inr None
      | Some re \<Rightarrow>
     (case py_float (remove_char CHR ''%'' (get_text_strip re)) of
        None \<Rightarrow> Inl ValueError
      | Some f \<Rightarrow> Inr (Some (formatted_date, median_sale_price, float_div_100 f)))))))))"

text \<open>\<open>int(median_sale_price / original_sale_to_list_ratio)\<close>.\<close>

definition list_price :: "int \<Rightarrow> pyfloat \<Rightarrow> exn + int" where
  "list_price median_sale_price ratio =
     (case int_truediv median_sale_price ratio of
        Inl e \<Rightarrow> Inl e
      | Inr q \<Rightarrow> int_of_float q)"

text \<open>The code after the inner \<open>try\<close> block, up to the returned dictionary.\<close>

definition market_record ::
  "string \<Rightarrow> string \<Rightarrow> soup \<Rightarrow> string \<Rightarrow> int \<Rightarrow> pyfloat \<Rightarrow> exn + pydict" where
  "market_record town region page formatted_date median_sale_price ratio =
     (case list_price median_sale_price ratio of
        Inl e \<Rightarrow> Inl e
      | Inr median_list_price \<Rightarrow>
     (case get_clean_number (median_dom_elem page) (PInt 0) of
        Inl e \<Rightarrow> Inl e
      | Inr median_dom \<Rightarrow>
     (case get_clean_premium_percentage (avg_avg_premium_elem page) (PFloat (Finite 0)) of
        Inl e \<Rightarrow> Inl e
      | Inr avg_home_premium \<Rightarrow>
     (case get_clean_number (avg_avg_dom_elem page) (PInt 0) of
        Inl e \<Rightarrow> Inl e
      | Inr avg_home_dom \<Rightarrow>
     (case get_clean_premium_percentage (hot_avg_premium_elem page) (PFloat (Finite 0)) of
        Inl e \<Rightarrow> Inl e
      | Inr hot_home_premium \<Rightarrow>
     (case get_clean_number (hot_avg_dom_elem page) (PInt 0) of
        Inl e \<Rightarrow> Inl e
      | Inr hot_home_dom \<Rightarrow>
     (case get_clean_number (compete_score_elem page) (PInt 0) of
        Inl e \<Rightarrow> Inl e
      | Inr compete_score \<Rightarrow>
          Inr [(''Date'', PStr formatted_date),
               (''Town'', PStr town),
               (''Region'', PStr region),
               (''Median_Sale_Price'', PInt median_sale_price),
               (''Median_List_Price'', PInt median_list_price),
               (''Overall_Average_Premium_Paid'', PFloat (py_round4 (float_sub_1 ratio))),
               (''Median_DOM'', median_dom),
               (''Avg_Home_Premium'', avg_home_premium),
               (''Avg_Home_DOM'', avg_home_dom),
               (''Hot_Home_Premium'', hot_home_premium),
               (''Hot_Home_DOM'', hot_home_dom),
               (''Num_of_Homes_Sold'',
                  (case num_of_homes_sold_elem page of
                     None \<Rightarrow> PNone
                   | Some e \<Rightarrow> PStr (py_strip (text_of e)))),
               (''Compete_Score'', compete_score)])))))))"

text \<open>
  \<open>scrape_market_summary\<close>. The argument \<open>response\<close> stands for the fetch and the
  ten selector lookups: an exception, or the elements found. The result \<open>None\<close> is
  the Python \<open>None\<close>; both outer handlers return it, so no exception leaves the function.
\<close>

definition scrape_market_summary ::
  "libc \<Rightarrow> string \<Rightarrow> string \<Rightarrow> exn + soup \<Rightarrow> pydict option" where
  "scrape_market_summary platform town region response =
     (case response of
        Inl e \<Rightarrow> None
      | Inr page \<Rightarrow>
          (case core_data platform page of
             Inl e \<Rightarrow> None
           | Inr None \<Rightarrow> None
           | Inr (Some (formatted_date, median_sale_price, ratio)) \<Rightarrow>
               (case market_record town region page formatted_date median_sale_price ratio of
                  Inl e \<Rightarrow> None
                | Inr r \<Rightarrow> Some r)))"

section \<open>The merge and calculation steps of the main program\<close>

text \<open>\<open>d.update(data)\<close>.\<close>

definition dict_update :: "('k \<times> 'v) list \<Rightarrow> ('k \<times> 'v) list \<Rightarrow> ('k \<times> 'v) list" where
  "dict_update d data = foldl (\<lambda>acc (k, v). dict_set acc k v) d data"

text \<open>The loop that merges the result of one feed into \<open>all_nyc_market_data\<close>.\<close>

definition merge_metric :: "town_dict \<Rightarrow> town_dict \<Rightarrow> town_dict" where
  "merge_metric all_nyc_market_data current_metric_data =
     foldl (\<lambda>acc (town, data).
              case map_of acc town of
                Some old \<Rightarrow> dict_set acc town (dict_update old data)
              | None \<Rightarrow> dict_set acc town data)
       all_nyc_market_data current_metric_data"

text \<open>The loop over the feeds, given the results of the feeds in processing order.\<close>

definition merge_all :: "town_dict list \<Rightarrow> town_dict" where
  "merge_all feeds = foldl merge_metric [] feeds"

definition RATIO_KEY :: string where
  "RATIO_KEY = ''Overall_Average_Premium_Paid''"

text \<open>
  \<open>float(raw_ratio)\<close> on a value; \<open>ValueError\<close> for text that is not a number,
  \<open>TypeError\<close> for a value that is neither text nor a number.
\<close>

fun float_of_val :: "pyval \<Rightarrow> exn + pyfloat" where
  "float_of_val (PStr s) = (case py_float s of None \<Rightarrow> Inl ValueError | Some f \<Rightarrow> Inr f)"
| "float_of_val (PInt n) =
     (case round_to_double (of_int n) of Finite a \<Rightarrow> Inr (Finite a) | _ \<Rightarrow> Inl OverflowError)"
| "float_of_val (PFloat f) = Inr f"
| "float_of_val v = Inl TypeError"

text \<open>The body of the calculation loop for the record of one neighbourhood.\<close>

definition calc_premium :: "pydict \<Rightarrow> exn + pydict" where
  "calc_premium data =
     (case dict_get data RATIO_KEY PNone of
        PNone \<Rightarrow> Inr data
      | raw_ratio \<Rightarrow>
          (case float_of_val raw_ratio of
             Inr ratio_value \<Rightarrow> Inr (dict_set data RATIO_KEY (PFloat (float_sub_1 ratio_value)))
           | Inl ValueError \<Rightarrow> Inr (dict_set data RATIO_KEY PNone)
           | Inl e \<Rightarrow> Inl e))"

fun calc_all :: "town_dict \<Rightarrow> exn + town_dict" where
  "calc_all [] = Inr []"
| "calc_all ((town, data) # rest) =
     (case calc_premium data of
        Inl e \<Rightarrow> Inl e
      | Inr data' \<Rightarrow>
          (case calc_all rest of
             Inl e \<Rightarrow> Inl e
           | Inr rest' \<Rightarrow> Inr ((town, data') # rest')))"

text \<open>The merge step followed by the calculation step.\<close>

definition merge_and_calc :: "town_dict list \<Rightarrow> exn + town_dict" where
  "merge_and_calc feeds = calc_all (merge_all feeds)"

section \<open>Reference definitions for the claims\<close>

text \<open>
  The number of days of a month in the Gregorian calendar, written out from the calendar
  rule: February has 29 days in a year divisible by 4 that is not a century, or is
  divisible by 400.
\<close>

definition days_in_month :: "nat \<Rightarrow> nat \<Rightarrow> nat" where
  "days_in_month year month =
     (if month = 2 then
        (if year mod 4 = 0 \<and> (year mod 100 \<noteq> 0 \<or> year mod 400 = 0) then 29 else 28)
      else if month \<in> {4, 6, 9, 11} then 30 else 31)"

text \<open>
  A valid month and year text: the name of month \<open>m + 1\<close> in any letter case, then
  whitespace, then four digits that are not 0000.
\<close>

definition valid_month_year :: "nat \<Rightarrow> string \<Rightarrow> string \<Rightarrow> string \<Rightarrow> bool" where
  "valid_month_year m pre ws ds \<longleftrightarrow>
     m < 12 \<and> map to_lower pre = month_names ! m \<and> ws \<noteq> [] \<and> list_all is_space ws \<and>
     length ds = 4 \<and> list_all is_digit ds \<and> nat_of_digits ds \<noteq> 0"

text \<open>
  The three columns of a row, when the row has enough columns for all three indexes.
\<close>

definition row_fields :: "csv_indexes \<Rightarrow> string list \<Rightarrow> (string \<times> string \<times> string) option" where
  "row_fields csv_idx row =
     (case py_index row (NEIGHBORHOOD csv_idx) of
        None \<Rightarrow> None
      | Some town \<Rightarrow>
          (case py_index row (DATE csv_idx) of
             None \<Rightarrow> None
           | Some date_str \<Rightarrow>
               (case py_index row (VALUE csv_idx) of
                  None \<Rightarrow> None
                | Some val \<Rightarrow> Some (town, date_str, val))))"

text \<open>
  The rows of the feed that belong to neighbourhood \<open>t\<close>, in feed order, each as its
  parsed date and its value.
\<close>

definition town_row :: "csv_indexes \<Rightarrow> string \<Rightarrow> string list \<Rightarrow> (pydate \<times> string) option" where
  "town_row csv_idx t row =
     (case row_fields csv_idx row of
        None \<Rightarrow> None
      | Some (town, date_str, val) \<Rightarrow>
          if town = t then
            (case strptime_ymd date_str of None \<Rightarrow> None | Some d \<Rightarrow> Some (d, val))
          else None)"

definition town_rows :: "csv_indexes \<Rightarrow> string \<Rightarrow> string list list \<Rightarrow> (pydate \<times> string) list" where
  "town_rows csv_idx t rows = List.map_filter (town_row csv_idx t) rows"

text \<open>
  Row \<open>i\<close> has the maximum date of the list and is the first row with that date.
\<close>

definition is_latest :: "(pydate \<times> string) list \<Rightarrow> nat \<Rightarrow> bool" where
  "is_latest xs i \<longleftrightarrow>
     i < length xs \<and>
     (\<forall>j < length xs. \<not> date_less (fst (xs ! i)) (fst (xs ! j))) \<and>
     (\<forall>j < i. date_less (fst (xs ! j)) (fst (xs ! i)))"

text \<open>
  Every row that has enough columns and names a target neighbourhood has a date that
  \<open>strptime\<close> accepts.
\<close>

definition dates_parse :: "csv_indexes \<Rightarrow> string list \<Rightarrow> string list list \<Rightarrow> bool" where
  "dates_parse csv_idx target_towns rows \<longleftrightarrow>
     (\<forall>row \<in> set rows.
        case row_fields csv_idx row of
          None \<Rightarrow> True
        | Some (town, date_str, val) \<Rightarrow> town \<in> set target_towns \<longrightarrow> strptime_ymd date_str \<noteq> None)"

text \<open>
  The keys that the parser itself writes into a record, the record while the loop runs,
  the record that is returned, and the last day of the month of a date as
  \<open>MM/DD/YYYY\<close>.
\<close>

definition reserved_keys :: "string set" where
  "reserved_keys = {''_DateTimeObject'', ''Date'', ''Town'', ''Region''}"

definition full_entry :: "string \<Rightarrow> string \<Rightarrow> pydate \<Rightarrow> string \<Rightarrow> string \<Rightarrow> pydict" where
  "full_entry metric_key t d fs v =
     [(''_DateTimeObject'', PDateTime d), (''Date'', PStr fs), (''Town'', PStr t),
      (''Region'', PStr ''New York City''), (metric_key, PStr v)]"

definition final_entry :: "string \<Rightarrow> string \<Rightarrow> string \<Rightarrow> string \<Rightarrow> pydict" where
  "final_entry metric_key t fs v =
     [(''Date'', PStr fs), (''Town'', PStr t), (''Region'', PStr ''New York City''),
      (metric_key, PStr v)]"

definition month_end :: "libc \<Rightarrow> pydate \<Rightarrow> string" where
  "month_end platform dt =
     (case dt of (y, m, d) \<Rightarrow> strftime_mdY platform (y, m, days_in_month y m))"

text \<open>
  The records of neighbourhood \<open>t\<close> in the results of the feeds, in feed order, and
  their union in which a later record overrides an earlier one field by field.
\<close>

definition town_records :: "town_dict list \<Rightarrow> string \<Rightarrow> pydict list" where
  "town_records feeds t = List.map_filter (\<lambda>fd. map_of fd t) feeds"

definition union_update :: "pydict list \<Rightarrow> (string \<rightharpoonup> pyval)" where
  "union_update rs = foldl (\<lambda>m r. m ++ map_of r) Map.empty rs"

text \<open>
  The calculation step on the fields of a record: a ratio stored as text becomes the
  number it denotes minus 1.0, or \<open>None\<close> when the text is not a number.
\<close>

definition minus_one :: "pyfloat \<Rightarrow> pyfloat" where
  "minus_one x = (case x of Finite q \<Rightarrow> round_to_double (q - 1) | _ \<Rightarrow> x)"

definition premium_spec :: "(string \<rightharpoonup> pyval) \<Rightarrow> (string \<rightharpoonup> pyval)" where
  "premium_spec m =
     (case m ''Overall_Average_Premium_Paid'' of
        Some (PStr s) \<Rightarrow>
          m(''Overall_Average_Premium_Paid'' \<mapsto>
              (case py_float s of None \<Rightarrow> PNone | Some f \<Rightarrow> PFloat (minus_one f)))
      | _ \<Rightarrow> m)"

text \<open>
  A well-formed result of a feed: a dictionary of dictionaries, so keys are distinct at
  both levels, in which a stored ratio is text, as the CSV parser stores it.
\<close>

definition text_ratio :: "pydict \<Rightarrow> bool" where
  "text_ratio r =
     (case map_of r ''Overall_Average_Premium_Paid'' of
        None \<Rightarrow> True
      | Some (PStr s) \<Rightarrow> True
      | Some _ \<Rightarrow> False)"

definition wf_feed :: "town_dict \<Rightarrow> bool" where
  "wf_feed fd \<longleftrightarrow>
     distinct (map fst fd) \<and> (\<forall>(t, r) \<in> set fd. distinct (map fst r) \<and> text_ratio r)"

section \<open>The meaning of the merged dictionary\<close>

text \<open>
  The dictionary of records, read as a map from neighbourhoods to maps from field names to
  values, and the property the accumulated dictionary keeps while feeds are merged.
\<close>

definition base :: "(string \<rightharpoonup> pyval) option \<Rightarrow> (string \<rightharpoonup> pyval)" where
  "base mo = (case mo of None \<Rightarrow> Map.empty | Some m \<Rightarrow> m)"

definition acc_ok :: "town_dict \<Rightarrow> bool" where
  "acc_ok td \<longleftrightarrow>
     distinct (map fst td) \<and>
     (\<forall>t r. map_of td t = Some r \<longrightarrow> distinct (map fst r) \<and> text_ratio r)"

definition sem :: "town_dict \<Rightarrow> string \<Rightarrow> (string \<rightharpoonup> pyval) option" where
  "sem td t = map_option map_of (map_of td t)"

section \<open>The invariant of the loop over the rows\<close>

text \<open>
  After the rows \<open>seen\<close>, the dictionary has distinct keys, which are the target
  neighbourhoods; the record of a neighbourhood is empty when none of the rows seen is
  its own, and otherwise holds the latest of them.
\<close>

definition slot_ok ::
  "libc \<Rightarrow> string \<Rightarrow> string \<Rightarrow> pydict option \<Rightarrow> (pydate \<times> string) list \<Rightarrow> bool" where
  "slot_ok platform metric_key t eo xs \<longleftrightarrow>
     (xs = [] \<and> eo = Some []) \<or>
     (\<exists>i. is_latest xs i \<and>
          eo = Some (full_entry metric_key t (fst (xs ! i)) (month_end platform (fst (xs ! i)))
                      (snd (xs ! i))))"

definition rows_inv ::
  "libc \<Rightarrow> string \<Rightarrow> string list \<Rightarrow> csv_indexes \<Rightarrow> town_dict \<Rightarrow> string list list \<Rightarrow> bool" where
  "rows_inv platform metric_key target_towns csv_idx town_data seen \<longleftrightarrow>
     distinct (map fst town_data) \<and>
     (\<forall>t. t \<notin> set target_towns \<longrightarrow> map_of town_data t = None) \<and>
     (\<forall>t \<in> set target_towns.
        slot_ok platform metric_key t (map_of town_data t) (town_rows csv_idx t seen))"

section \<open>Example inputs\<close>

text \<open>A market page on which every element is found, and the same page with a median
  days-on-market element whose text carries a percent sign and no number.\<close>

definition example_page :: soup where
  "example_page =
     \<lparr>long_date_elem = Some [''In October 2025, Ridgewood home prices were up 5.0%''],
      sale_price_elem = Some [''$500,000''],
      ratio_elem = Some [''103%''],
      median_dom_elem = Some [''21''],
      avg_avg_premium_elem = Some [''+3%''],
      avg_avg_dom_elem = Some [''30''],
      hot_avg_premium_elem = Some [''+8%''],
      hot_avg_dom_elem = Some [''9''],
      num_of_homes_sold_elem = Some ['' 12 ''],
      compete_score_elem = Some [''85'']\<rparr>"

definition bad_dom_page :: soup where
  "bad_dom_page = example_page\<lparr>median_dom_elem := Some [''abc%'']\<rparr>"

definition example_record :: pydict where
  "example_record =
     [(''Date'', PStr ''10/31/2025''), (''Town'', PStr ''Ridgewood''),
      (''Region'', PStr ''New Jersey''), (''Median_Sale_Price'', PInt 500000),
      (''Median_List_Price'', PInt 485436),
      (''Overall_Average_Premium_Paid'', PFloat (Finite (1080863910568919 / 36028797018963968))),
      (''Median_DOM'', PInt 21),
      (''Avg_Home_Premium'', PFloat (Finite (1080863910568919 / 36028797018963968))),
      (''Avg_Home_DOM'', PInt 30),
      (''Hot_Home_Premium'', PFloat (Finite (5764607523034235 / 72057594037927936))),
      (''Hot_Home_DOM'', PInt 9), (''Num_of_Homes_Sold'', PStr ''12''),
      (''Compete_Score'', PInt 85)]"

text \<open>
  Two more pages: a sale price of 497000 with a ratio of 99.4%, and with a ratio of
  100.025%. The records are the ones the program returns for them.
\<close>

definition discount_page :: soup where
  "discount_page =
     example_page\<lparr>sale_price_elem := Some [''$497,000''], ratio_elem := Some [''99.4%'']\<rparr>"

definition discount_record :: pydict where
  "discount_record =
     [(''Date'', PStr ''10/31/2025''), (''Town'', PStr ''Ridgewood''),
      (''Region'', PStr ''New Jersey''), (''Median_Sale_Price'', PInt 497000),
      (''Median_List_Price'', PInt 499999),
      (''Overall_Average_Premium_Paid'', PFloat (Finite (- (3458764513820541 / 576460752303423488)))),
      (''Median_DOM'', PInt 21),
      (''Avg_Home_Premium'', PFloat (Finite (1080863910568919 / 36028797018963968))),
      (''Avg_Home_DOM'', PInt 30),
      (''Hot_Home_Premium'', PFloat (Finite (5764607523034235 / 72057594037927936))),
      (''Hot_Home_DOM'', PInt 9), (''Num_of_Homes_Sold'', PStr ''12''),
      (''Compete_Score'', PInt 85)]"

definition small_premium_page :: soup where
  "small_premium_page =
     example_page\<lparr>sale_price_elem := Some [''$497,000''], ratio_elem := Some [''100.025%'']\<rparr>"

definition small_premium_record :: pydict where
  "small_premium_record =
     [(''Date'', PStr ''10/31/2025''), (''Town'', PStr ''Ridgewood''),
      (''Region'', PStr ''New Jersey''), (''Median_Sale_Price'', PInt 497000),
      (''Median_List_Price'', PInt 496875),
      (''Overall_Average_Premium_Paid'', PFloat (Finite (5534023222112865 / 18446744073709551616))),
      (''Median_DOM'', PInt 21),
      (''Avg_Home_Premium'', PFloat (Finite (1080863910568919 / 36028797018963968))),
      (''Avg_Home_DOM'', PInt 30),
      (''Hot_Home_Premium'', PFloat (Finite (5764607523034235 / 72057594037927936))),
      (''Hot_Home_DOM'', PInt 9), (''Num_of_Homes_Sold'', PStr ''12''),
      (''Compete_Score'', PInt 85)]"

definition example_header :: "string list" where
  "example_header = [''areaName'', ''Borough'', ''date'', ''areaType'', ''value'']"

definition example_rows :: "string list list" where
  "example_rows =
     [[''Astoria'', ''Queens'', ''2025-01-15'', ''neighborhood'', ''100''],
      [''Astoria'', ''Queens'', ''2025-03-02'', ''neighborhood'', ''300''],
      [''Harlem'', ''Manhattan'', ''2025-04-01'', ''neighborhood'', ''9''],
      [''Astoria'', ''Queens''],
      [''Astoria'', ''Queens'', ''2025-03-02'', ''neighborhood'', ''301'']]"

text \<open>
  A feed with a row for Chelsea, and the same feed followed by a row for Astoria whose
  date is written day first.
\<close>

definition chelsea_feed :: "string list list" where
  "chelsea_feed =
     [example_header, [''Chelsea'', ''Manhattan'', ''2025-02-10'', ''neighborhood'', ''42'']]"

definition chelsea_astoria_feed :: "string list list" where
  "chelsea_astoria_feed =
     chelsea_feed @ [[''Astoria'', ''Queens'', ''15/02/2025'', ''neighborhood'', ''300'']]"

text \<open>
  The results of two feeds, and what the merge and calculation steps make of them; the
  premium is the double 0.030000000000000027.
\<close>

definition example_merged :: town_dict where
  "example_merged =
     [(''Astoria'',
       [(''Date'', PStr ''03/31/2025''), (''Town'', PStr ''Astoria''),
        (''Region'', PStr ''New York City''), (''Median_DOM'', PStr ''300''),
        (''Overall_Average_Premium_Paid'', PFloat (Finite (135107988821115 / 4503599627370496)))]),
      (''Chelsea'',
       [(''Date'', PStr ''03/31/2025''), (''Town'', PStr ''Chelsea''),
        (''Region'', PStr ''New York City''),
        (''Overall_Average_Premium_Paid'', PNone)])]"

definition example_feeds :: "town_dict list" where
  "example_feeds =
     [[(''Astoria'', final_entry ''Median_DOM'' ''Astoria'' ''03/31/2025'' ''300'')],
      [(''Astoria'', final_entry ''Overall_Average_Premium_Paid'' ''Astoria'' ''03/31/2025'' ''1.03''),
       (''Chelsea'', final_entry ''Overall_Average_Premium_Paid'' ''Chelsea'' ''03/31/2025'' ''n/a'')]]"

section \<open>Properties of the record normalizer\<close>

lemma update_absent_append:
  "k \<notin> fst ` set al \<Longrightarrow> AList.update k v al = al @ [(k, v)]"
  by (induction al) auto

lemma normalize_loop_distinct:
  "distinct (map fst acc @ schema) \<Longrightarrow>
   normalize_loop record schema acc = acc @ map (\<lambda>k. (k, dict_get record k PNone)) schema"
proof (induction schema arbitrary: acc)
  case Nil
  then show ?case by simp
next
  case (Cons key schema)
  have absent: "key \<notin> fst ` set acc"
    using Cons.prems by auto
  have step: "dict_set acc key (dict_get record key PNone) = acc @ [(key, dict_get record key PNone)]"
    unfolding dict_set_def using absent by (rule update_absent_append)
  have "distinct (map fst (acc @ [(key, dict_get record key PNone)]) @ schema)"
    using Cons.prems by auto
  from Cons.IH [OF this] show ?case
    by (simp add: step)
qed

lemma normalize_distinct:
  "distinct schema \<Longrightarrow>
   normalize_record_for_grist record schema = map (\<lambda>k. (k, dict_get record k PNone)) schema"
  unfolding normalize_record_for_grist_def
  using normalize_loop_distinct [of "[]" schema "record"] by simp

lemma map_of_tabulate:
  "map_of (map (\<lambda>k. (k, f k)) ks) k = (if k \<in> set ks then Some (f k) else None)"
  by (induction ks) auto

lemma GRIST_MASTER_SCHEMA_distinct: "distinct GRIST_MASTER_SCHEMA"
  by (simp add: GRIST_MASTER_SCHEMA_def)

text \<open>
  Claim C1. For every input record and the 13-field master schema, the normalizer returns
  a record whose keys are exactly the schema's keys in schema order; a schema key present
  in the input keeps its input value, a schema key absent from the input maps to
  \<open>None\<close>, and keys outside the schema do not appear. The function has no error
  result: \<open>dict.get\<close> with a default never raises.
\<close>

theorem normalize_record_schema:
  "map fst (normalize_record_for_grist record GRIST_MASTER_SCHEMA) = GRIST_MASTER_SCHEMA \<and>
   (\<forall>k \<in> set GRIST_MASTER_SCHEMA.
      map_of (normalize_record_for_grist record GRIST_MASTER_SCHEMA) k =
        Some (case map_of record k of Some v \<Rightarrow> v | None \<Rightarrow> PNone)) \<and>
   (\<forall>k. k \<notin> set GRIST_MASTER_SCHEMA \<longrightarrow>
      map_of (normalize_record_for_grist record GRIST_MASTER_SCHEMA) k = None)"
proof -
  have eq: "normalize_record_for_grist record GRIST_MASTER_SCHEMA =
      map (\<lambda>k. (k, dict_get record k PNone)) GRIST_MASTER_SCHEMA"
    using GRIST_MASTER_SCHEMA_distinct by (rule normalize_distinct)
  have keys: "map fst (normalize_record_for_grist record GRIST_MASTER_SCHEMA) = GRIST_MASTER_SCHEMA"
    unfolding eq by (simp add: comp_def)
  have look: "\<And>k. map_of (normalize_record_for_grist record GRIST_MASTER_SCHEMA) k =
      (if k \<in> set GRIST_MASTER_SCHEMA then Some (dict_get record k PNone) else None)"
    unfolding eq by (rule map_of_tabulate)
  have get: "\<And>k. dict_get record k PNone = (case map_of record k of Some v \<Rightarrow> v | None \<Rightarrow> PNone)"
    by (simp add: dict_get_def split: option.splits)
  show ?thesis
    using keys by (simp add: look get)
qed

theorem normalize_record_schema_witness:
  "map fst (normalize_record_for_grist
       [(''Town'', PStr ''Ridgewood''), (''Median_DOM'', PInt 21), (''Extra'', PInt 1)]
       GRIST_MASTER_SCHEMA) = GRIST_MASTER_SCHEMA \<and>
   map_of (normalize_record_for_grist
       [(''Town'', PStr ''Ridgewood''), (''Median_DOM'', PInt 21), (''Extra'', PInt 1)]
       GRIST_MASTER_SCHEMA) ''Town'' = Some (PStr ''Ridgewood'') \<and>
   map_of (normalize_record_for_grist
       [(''Town'', PStr ''Ridgewood''), (''Median_DOM'', PInt 21), (''Extra'', PInt 1)]
       GRIST_MASTER_SCHEMA) ''Date'' = Some PNone \<and>
   map_of (normalize_record_for_grist
       [(''Town'', PStr ''Ridgewood''), (''Median_DOM'', PInt 21), (''Extra'', PInt 1)]
       GRIST_MASTER_SCHEMA) ''Extra'' = None"
proof -
  let ?r = "[(''Town'', PStr ''Ridgewood''), (''Median_DOM'', PInt 21), (''Extra'', PInt 1)]"
  note t = normalize_record_schema [of ?r]
  have town: "''Town'' \<in> set GRIST_MASTER_SCHEMA" and date: "''Date'' \<in> set GRIST_MASTER_SCHEMA"
    and extra: "''Extra'' \<notin> set GRIST_MASTER_SCHEMA"
    by (simp_all add: GRIST_MASTER_SCHEMA_def)
  from t have a: "map fst (normalize_record_for_grist ?r GRIST_MASTER_SCHEMA) = GRIST_MASTER_SCHEMA"
    by blast
  from t town have b: "map_of (normalize_record_for_grist ?r GRIST_MASTER_SCHEMA) ''Town'' =
      Some (case map_of ?r ''Town'' of Some v \<Rightarrow> v | None \<Rightarrow> PNone)"
    by blast
  from t date have c: "map_of (normalize_record_for_grist ?r GRIST_MASTER_SCHEMA) ''Date'' =
      Some (case map_of ?r ''Date'' of Some v \<Rightarrow> v | None \<Rightarrow> PNone)"
    by blast
  from t extra have d: "map_of (normalize_record_for_grist ?r GRIST_MASTER_SCHEMA) ''Extra'' = None"
    by blast
  show ?thesis
    using a b c d by simp
qed

section \<open>Evaluation of the definitions\<close>

lemmas str_eval = is_space_def is_digit_def is_alpha_def py_strip_def remove_char_def
  keep_digits_def to_lower_def digit_val_def digit_char_def nat_of_digits_def
  get_text_strip_def text_of_def

lemmas int_eval = digitpart_def is_num_space_def num_strip_def take_sign_def py_int_def

lemmas num_eval = int_eval pow10_def mk_float_def float_exponent_def py_float_def

lemmas date_eval = isleap_def mdays_def monthrange_def mk_date_def month_names_def
  strptime_month_year_def month_alts_def day_alts_def strptime_ymd_def pad2_def pad4_def
  get_last_day_of_month_def last_day_formatted_def datetime_min_def

lemmas dict_eval = dict_get_def dict_set_def dict_del_def

lemmas csv_eval = py_index_def CSV_COL_INDEXES_def init_town_data_def is_later_def
  store_row_def process_row_def clean_up_def scrape_streeteasy_data_def

section \<open>Rounding to a double\<close>

text \<open>
  The search for the binary exponent finds it, and a number within half a unit of the
  \<open>m\<close>-th multiple of the unit in the last place rounds to that multiple. With these
  facts a rounding is checked by arithmetic on the numerals.
\<close>

lemma exp_up_steps:
  "2 ^ n \<le> a \<Longrightarrow> a < 2 ^ Suc n \<Longrightarrow> e + int n \<le> 1024 \<Longrightarrow> exp_up a e = e + int n"
proof (induction n arbitrary: a e)
  case 0
  then show ?case by (simp add: exp_up.simps)
next
  case (Suc n)
  have two: "2 \<le> a"
  proof -
    have "(2::rat) \<le> 2 ^ Suc n" by simp
    with Suc.prems(1) show ?thesis by linarith
  qed
  have small: "e < 1024" using Suc.prems(3) by simp
  have "exp_up (a / 2) (e + 1) = e + 1 + int n"
    using Suc.prems by (intro Suc.IH) simp_all
  then show ?case
    using two small by (subst exp_up.simps) simp
qed

lemma exp_down_steps:
  "1 \<le> a * 2 ^ n \<Longrightarrow> a * 2 ^ n < 2 \<Longrightarrow> - 1022 \<le> e - int n \<Longrightarrow> exp_down a e = e - int n"
proof (induction n arbitrary: a e)
  case 0
  then show ?case by (simp add: exp_down.simps)
next
  case (Suc n)
  have "a * 2 ^ Suc n < 2" by (rule Suc.prems(2))
  then have "a * 2 ^ n < 1" by simp
  moreover have "(1::rat) \<le> 2 ^ n" by simp
  ultimately have less: "a < 1"
  proof -
    assume lt: "a * 2 ^ n < 1" and pw: "(1::rat) \<le> 2 ^ n"
    show ?thesis
    proof (rule ccontr)
      assume "\<not> a < 1"
      then have "1 \<le> a" by simp
      then have "1 * 1 \<le> a * 2 ^ n"
        using pw by (intro mult_mono) simp_all
      with lt show False by simp
    qed
  qed
  have big: "- 1022 < e" using Suc.prems(3) by simp
  have "exp_down (a * 2) (e - 1) = e - 1 - int n"
    using Suc.prems by (intro Suc.IH) (simp_all add: mult.assoc)
  then show ?case
    using less big by (subst exp_down.simps) simp
qed

lemma binary_exponent_up:
  "2 ^ n \<le> a \<Longrightarrow> a < 2 ^ Suc n \<Longrightarrow> n \<le> 1023 \<Longrightarrow> binary_exponent a = int n"
proof -
  assume a: "2 ^ n \<le> a" "a < 2 ^ Suc n" and n: "n \<le> 1023"
  have "(1::rat) \<le> 2 ^ n" by simp
  with a(1) have "1 \<le> a" by linarith
  moreover have "exp_up a 0 = 0 + int n"
    using a n by (intro exp_up_steps) simp_all
  ultimately show ?thesis
    by (simp add: binary_exponent_def)
qed

lemma binary_exponent_down:
  "1 \<le> a * 2 ^ n \<Longrightarrow> a * 2 ^ n < 2 \<Longrightarrow> 0 < n \<Longrightarrow> n \<le> 1022 \<Longrightarrow> binary_exponent a = - int n"
proof -
  assume a: "1 \<le> a * 2 ^ n" "a * 2 ^ n < 2" and n: "0 < n" "n \<le> 1022"
  have "\<not> 1 \<le> a"
  proof
    assume "1 \<le> a"
    moreover have "(2::rat) \<le> 2 ^ n"
      using n(1) by (cases n) simp_all
    ultimately have "1 * 2 \<le> a * 2 ^ n"
      by (intro mult_mono) simp_all
    with a(2) show False by simp
  qed
  moreover have "exp_down a 0 = 0 - int n"
    using a n by (intro exp_down_steps) simp_all
  ultimately show ?thesis
    by (simp add: binary_exponent_def)
qed

lemma round_half_even_near:
  assumes "\<bar>q - of_int m\<bar> < 1 / 2"
  shows "round_half_even q = m"
proof -
  from assms have lo: "of_int m - 1 / 2 < q" and hi: "q < of_int m + 1 / 2"
    by linarith+
  show ?thesis
  proof (cases "of_int m \<le> q")
    case True
    have f: "\<lfloor>q\<rfloor> = m"
      using True hi by (intro floor_unique) linarith+
    show ?thesis
      using hi by (simp add: round_half_even_def f Let_def)
  next
    case False
    have f: "\<lfloor>q\<rfloor> = m - 1"
    proof (rule floor_unique)
      show "of_int (m - 1) \<le> q" using lo by simp
      show "q < of_int (m - 1) + 1" using False by simp
    qed
    have "q - of_int (m - 1) > 1 / 2"
      using lo by simp
    then show ?thesis
      by (simp add: round_half_even_def f Let_def)
  qed
qed

lemma round_to_double_up:
  assumes "2 ^ n \<le> q" and "q < 2 ^ Suc n" and "n \<le> 1023"
    and "\<bar>q / pow2 (int n - 52) - of_int m\<bar> < 1 / 2"
    and "r = of_int m * pow2 (int n - 52)" and "r < overflow_bound"
  shows "round_to_double q = Finite r"
proof -
  have "(0::rat) < 2 ^ n" by simp
  with assms(1) have pos: "0 < q" by linarith
  have e: "binary_exponent q = int n"
    using assms(1,2,3) by (rule binary_exponent_up)
  have m: "round_half_even (q / pow2 (int n - 52)) = m"
    using assms(4) by (rule round_half_even_near)
  show ?thesis
    using pos assms(5,6) by (simp add: round_to_double_def abs_of_pos e m Let_def)
qed

lemma round_to_double_down:
  assumes "1 \<le> q * 2 ^ n" and "q * 2 ^ n < 2" and "0 < n" and "n \<le> 1022"
    and "\<bar>q / pow2 (- int n - 52) - of_int m\<bar> < 1 / 2"
    and "r = of_int m * pow2 (- int n - 52)" and "r < overflow_bound"
  shows "round_to_double q = Finite r"
proof -
  have pos: "0 < q"
  proof (rule ccontr)
    assume "\<not> 0 < q"
    then have "q * 2 ^ n \<le> 0"
      by (simp add: mult_le_0_iff)
    with assms(1) show False by simp
  qed
  have e: "binary_exponent q = - int n"
    using assms(1,2,3,4) by (rule binary_exponent_down)
  have m: "round_half_even (q / pow2 (- int n - 52)) = m"
    using assms(5) by (rule round_half_even_near)
  show ?thesis
    using pos assms(6,7) by (simp add: round_to_double_def abs_of_pos e m Let_def)
qed

lemma round_to_double_minus: "round_to_double (- q) = fneg (round_to_double q)"
  by (auto simp: round_to_double_def Let_def)

lemma int_truediv_finite:
  assumes "round_to_double (of_int n) = Finite a"
    and "q \<noteq> 0"
    and "round_to_double (a / q) = Finite r"
  shows "int_truediv n (Finite q) = Inr (Finite r)"
  using assms by (simp add: int_truediv_def)

lemma int_of_float_pos:
  assumes "of_int m \<le> q" and "q < of_int m + 1" and "0 \<le> m"
  shows "int_of_float (Finite q) = Inr m"
proof -
  from assms(3) have "(0::rat) \<le> of_int m"
    by simp
  with assms(1) have pos: "0 \<le> q"
    by linarith
  have "\<lfloor>q\<rfloor> = m"
    using assms(1,2) by (rule floor_unique)
  with pos show ?thesis
    by (simp add: trunc_rat_def)
qed

declare float_div_100.simps [simp del] float_sub_1.simps [simp del] py_round4.simps [simp del]
  int_of_float.simps [simp del]

subsection \<open>The numbers of the examples\<close>

text \<open>
  Each value is the double the interpreter computes, written as the fraction it is:
  0.03 is 1080863910568919 / 2 ^ 55 and 0.08 is 5764607523034235 / 2 ^ 56.
\<close>

lemma float_103_0: "py_float ''103.0'' = Some (Finite 103)"
proof -
  have "py_float ''103.0'' = Some (round_to_double 103)"
    by (simp add: str_eval num_eval)
  moreover have "round_to_double 103 =
      Finite 103"
    by (rule round_to_double_up [where n = 6 and m = 7247980650299392])
    (simp_all add: pow2_def overflow_bound_def)
  ultimately show ?thesis
    by simp
qed

lemma float_103: "py_float ''103'' = Some (Finite 103)"
proof -
  have "py_float ''103'' = Some (round_to_double 103)"
    by (simp add: str_eval num_eval)
  moreover have "round_to_double 103 =
      Finite 103"
    by (rule round_to_double_up [where n = 6 and m = 7247980650299392])
    (simp_all add: pow2_def overflow_bound_def)
  ultimately show ?thesis
    by simp
qed

lemma float_3: "py_float ''3'' = Some (Finite 3)"
proof -
  have "py_float ''3'' = Some (round_to_double 3)"
    by (simp add: str_eval num_eval)
  moreover have "round_to_double 3 =
      Finite 3"
    by (rule round_to_double_up [where n = 1 and m = 6755399441055744])
    (simp_all add: pow2_def overflow_bound_def)
  ultimately show ?thesis
    by simp
qed

lemma float_8: "py_float ''8'' = Some (Finite 8)"
proof -
  have "py_float ''8'' = Some (round_to_double 8)"
    by (simp add: str_eval num_eval)
  moreover have "round_to_double 8 =
      Finite 8"
    by (rule round_to_double_up [where n = 3 and m = 4503599627370496])
    (simp_all add: pow2_def overflow_bound_def)
  ultimately show ?thesis
    by simp
qed

lemma float_minus_8: "py_float ''-8'' = Some (Finite (- 8))"
proof -
  have "py_float ''-8'' = Some (fneg (round_to_double 8))"
    by (simp add: str_eval num_eval)
  moreover have "round_to_double 8 =
      Finite 8"
    by (rule round_to_double_up [where n = 3 and m = 4503599627370496])
    (simp_all add: pow2_def overflow_bound_def)
  ultimately show ?thesis
    by simp
qed

lemma float_1_23456: "py_float ''1.23456'' = Some (Finite (694995494495815 / 562949953421312))"
proof -
  have "py_float ''1.23456'' = Some (round_to_double (3858 / 3125))"
    by (simp add: str_eval num_eval)
  moreover have "round_to_double (3858 / 3125) =
      Finite (694995494495815 / 562949953421312)"
    by (rule round_to_double_up [where n = 0 and m = 5559963955966520])
    (simp_all add: pow2_def overflow_bound_def)
  ultimately show ?thesis
    by simp
qed

lemma float_0_125: "py_float ''0.125'' = Some (Finite (1 / 8))"
proof -
  have "py_float ''0.125'' = Some (round_to_double (1 / 8))"
    by (simp add: str_eval num_eval)
  moreover have "round_to_double (1 / 8) =
      Finite (1 / 8)"
    by (rule round_to_double_down [where n = 3 and m = 4503599627370496])
    (simp_all add: pow2_def overflow_bound_def)
  ultimately show ?thesis
    by simp
qed

lemma float_0_005: "py_float ''0.005'' = Some (Finite (5764607523034235 / 1152921504606846976))"
proof -
  have "py_float ''0.005'' = Some (round_to_double (1 / 200))"
    by (simp add: str_eval num_eval)
  moreover have "round_to_double (1 / 200) =
      Finite (5764607523034235 / 1152921504606846976)"
    by (rule round_to_double_down [where n = 8 and m = 5764607523034235])
    (simp_all add: pow2_def overflow_bound_def)
  ultimately show ?thesis
    by simp
qed

lemma float_1_03: "py_float ''1.03'' = Some (Finite (4638707616191611 / 4503599627370496))"
proof -
  have "py_float ''1.03'' = Some (round_to_double (103 / 100))"
    by (simp add: str_eval num_eval)
  moreover have "round_to_double (103 / 100) =
      Finite (4638707616191611 / 4503599627370496)"
    by (rule round_to_double_up [where n = 0 and m = 4638707616191611])
    (simp_all add: pow2_def overflow_bound_def)
  ultimately show ?thesis
    by simp
qed

lemma float_99_4: "py_float ''99.4'' = Some (Finite (3497326585629901 / 35184372088832))"
proof -
  have "py_float ''99.4'' = Some (round_to_double (497 / 5))"
    by (simp add: str_eval num_eval)
  moreover have "round_to_double (497 / 5) =
      Finite (3497326585629901 / 35184372088832)"
    by (rule round_to_double_up [where n = 6 and m = 6994653171259802])
    (simp_all add: pow2_def overflow_bound_def)
  ultimately show ?thesis
    by simp
qed

lemma float_100_025: "py_float ''100.025'' = Some (Finite (3519316818185421 / 35184372088832))"
proof -
  have "py_float ''100.025'' = Some (round_to_double (4001 / 40))"
    by (simp add: str_eval num_eval)
  moreover have "round_to_double (4001 / 40) =
      Finite (3519316818185421 / 35184372088832)"
    by (rule round_to_double_up [where n = 6 and m = 7038633636370842])
    (simp_all add: pow2_def overflow_bound_def)
  ultimately show ?thesis
    by simp
qed

lemma div_103:
  "float_div_100 (Finite 103) =
     Finite (4638707616191611 / 4503599627370496)"
proof -
  have "round_to_double (103 / 100) =
      Finite (4638707616191611 / 4503599627370496)"
    by (rule round_to_double_up [where n = 0 and m = 4638707616191611])
      (simp_all add: pow2_def overflow_bound_def)
  then show ?thesis
    by (simp only: float_div_100.simps)
qed

lemma div_3:
  "float_div_100 (Finite 3) =
     Finite (1080863910568919 / 36028797018963968)"
proof -
  have "round_to_double (3 / 100) =
      Finite (1080863910568919 / 36028797018963968)"
    by (rule round_to_double_down [where n = 6 and m = 8646911284551352])
      (simp_all add: pow2_def overflow_bound_def)
  then show ?thesis
    by (simp only: float_div_100.simps)
qed

lemma div_8:
  "float_div_100 (Finite 8) =
     Finite (5764607523034235 / 72057594037927936)"
proof -
  have "round_to_double (8 / 100) =
      Finite (5764607523034235 / 72057594037927936)"
    by (rule round_to_double_down [where n = 4 and m = 5764607523034235])
      (simp_all add: pow2_def overflow_bound_def)
  then show ?thesis
    by (simp only: float_div_100.simps)
qed

lemma div_minus_8:
  "float_div_100 (Finite (- 8)) =
     Finite (- (5764607523034235 / 72057594037927936))"
proof -
  have "round_to_double ((- 8) / 100) =
      Finite (- (5764607523034235 / 72057594037927936))"
  proof -
    have "round_to_double (2 / 25) =
        Finite (5764607523034235 / 72057594037927936)"
      by (rule round_to_double_down [where n = 4 and m = 5764607523034235])
        (simp_all add: pow2_def overflow_bound_def)
    then have "round_to_double (- (2 / 25)) =
        Finite (- (5764607523034235 / 72057594037927936))"
      by (simp add: round_to_double_minus)
    moreover have "((- 8) / 100 :: rat) = - (2 / 25)"
      by simp
    ultimately show ?thesis
      by simp
  qed
  then show ?thesis
    by (simp only: float_div_100.simps)
qed

lemma div_1_23456:
  "float_div_100 (Finite (694995494495815 / 562949953421312)) =
     Finite (3558376931818573 / 288230376151711744)"
proof -
  have "round_to_double ((694995494495815 / 562949953421312) / 100) =
      Finite (3558376931818573 / 288230376151711744)"
    by (rule round_to_double_down [where n = 7 and m = 7116753863637146])
      (simp_all add: pow2_def overflow_bound_def)
  then show ?thesis
    by (simp only: float_div_100.simps)
qed

lemma div_0_125:
  "float_div_100 (Finite (1 / 8)) =
     Finite (5764607523034235 / 4611686018427387904)"
proof -
  have "round_to_double ((1 / 8) / 100) =
      Finite (5764607523034235 / 4611686018427387904)"
    by (rule round_to_double_down [where n = 10 and m = 5764607523034235])
      (simp_all add: pow2_def overflow_bound_def)
  then show ?thesis
    by (simp only: float_div_100.simps)
qed

lemma div_0_005:
  "float_div_100 (Finite (5764607523034235 / 1152921504606846976)) =
     Finite (7378697629483821 / 147573952589676412928)"
proof -
  have "round_to_double ((5764607523034235 / 1152921504606846976) / 100) =
      Finite (7378697629483821 / 147573952589676412928)"
    by (rule round_to_double_down [where n = 15 and m = 7378697629483821])
      (simp_all add: pow2_def overflow_bound_def)
  then show ?thesis
    by (simp only: float_div_100.simps)
qed

lemma div_99_4:
  "float_div_100 (Finite (3497326585629901 / 35184372088832)) =
     Finite (8953156059212547 / 9007199254740992)"
proof -
  have "round_to_double ((3497326585629901 / 35184372088832) / 100) =
      Finite (8953156059212547 / 9007199254740992)"
    by (rule round_to_double_down [where n = 1 and m = 8953156059212547])
      (simp_all add: pow2_def overflow_bound_def)
  then show ?thesis
    by (simp only: float_div_100.simps)
qed

lemma div_100_025:
  "float_div_100 (Finite (3519316818185421 / 35184372088832)) =
     Finite (4504725527277339 / 4503599627370496)"
proof -
  have "round_to_double ((3519316818185421 / 35184372088832) / 100) =
      Finite (4504725527277339 / 4503599627370496)"
    by (rule round_to_double_up [where n = 0 and m = 4504725527277339])
      (simp_all add: pow2_def overflow_bound_def)
  then show ?thesis
    by (simp only: float_div_100.simps)
qed

lemma sub_1_03:
  "float_sub_1 (Finite (4638707616191611 / 4503599627370496)) =
     Finite (135107988821115 / 4503599627370496)"
proof -
  have "round_to_double ((4638707616191611 / 4503599627370496) - 1) =
      Finite (135107988821115 / 4503599627370496)"
    by (rule round_to_double_down [where n = 6 and m = 8646911284551360])
      (simp_all add: pow2_def overflow_bound_def)
  then show ?thesis
    by (simp only: float_sub_1.simps)
qed

lemma sub_0_994:
  "float_sub_1 (Finite (8953156059212547 / 9007199254740992)) =
     Finite (- (54043195528445 / 9007199254740992))"
proof -
  have "round_to_double ((8953156059212547 / 9007199254740992) - 1) =
      Finite (- (54043195528445 / 9007199254740992))"
  proof -
    have "round_to_double (54043195528445 / 9007199254740992) =
        Finite (54043195528445 / 9007199254740992)"
      by (rule round_to_double_down [where n = 8 and m = 6917529027640960])
        (simp_all add: pow2_def overflow_bound_def)
    then have "round_to_double (- (54043195528445 / 9007199254740992)) =
        Finite (- (54043195528445 / 9007199254740992))"
      by (simp add: round_to_double_minus)
    moreover have "((8953156059212547 / 9007199254740992) - 1 :: rat) = - (54043195528445 / 9007199254740992)"
      by simp
    ultimately show ?thesis
      by simp
  qed
  then show ?thesis
    by (simp only: float_sub_1.simps)
qed

lemma sub_1_00025:
  "float_sub_1 (Finite (4504725527277339 / 4503599627370496)) =
     Finite (1125899906843 / 4503599627370496)"
proof -
  have "round_to_double ((4504725527277339 / 4503599627370496) - 1) =
      Finite (1125899906843 / 4503599627370496)"
    by (rule round_to_double_down [where n = 12 and m = 4611686018428928])
      (simp_all add: pow2_def overflow_bound_def)
  then show ?thesis
    by (simp only: float_sub_1.simps)
qed

lemma round_ratio_103:
  "py_round4 (Finite (135107988821115 / 4503599627370496)) =
     Finite (1080863910568919 / 36028797018963968)"
proof -
  have k: "round_half_even ((135107988821115 / 4503599627370496) * 10000) = 300"
    by (rule round_half_even_near) simp
  have "round_to_double (of_int 300 / 10000) =
      Finite (1080863910568919 / 36028797018963968)"
    by (rule round_to_double_down [where n = 6 and m = 8646911284551352])
      (simp_all add: pow2_def overflow_bound_def)
  then show ?thesis
    by (simp only: py_round4.simps k)
qed

lemma round_ratio_99_4:
  "py_round4 (Finite (- (54043195528445 / 9007199254740992))) =
     Finite (- (3458764513820541 / 576460752303423488))"
proof -
  have k: "round_half_even ((- (54043195528445 / 9007199254740992)) * 10000) = - 60"
    by (rule round_half_even_near) simp
  have "round_to_double (of_int (- 60) / 10000) =
      Finite (- (3458764513820541 / 576460752303423488))"
  proof -
    have "round_to_double (3 / 500) =
        Finite (3458764513820541 / 576460752303423488)"
      by (rule round_to_double_down [where n = 8 and m = 6917529027641082])
        (simp_all add: pow2_def overflow_bound_def)
    then have "round_to_double (- (3 / 500)) =
        Finite (- (3458764513820541 / 576460752303423488))"
      by (simp add: round_to_double_minus)
    moreover have "(of_int (- 60) / 10000 :: rat) = - (3 / 500)"
      by simp
    ultimately show ?thesis
      by simp
  qed
  then show ?thesis
    by (simp only: py_round4.simps k)
qed

lemma round_ratio_100_025:
  "py_round4 (Finite (1125899906843 / 4503599627370496)) =
     Finite (5534023222112865 / 18446744073709551616)"
proof -
  have k: "round_half_even ((1125899906843 / 4503599627370496) * 10000) = 3"
    by (rule round_half_even_near) simp
  have "round_to_double (of_int 3 / 10000) =
      Finite (5534023222112865 / 18446744073709551616)"
    by (rule round_to_double_down [where n = 12 and m = 5534023222112865])
      (simp_all add: pow2_def overflow_bound_def)
  then show ?thesis
    by (simp only: py_round4.simps k)
qed

lemma round_0_03:
  "py_round4 (Finite (1080863910568919 / 36028797018963968)) =
     Finite (1080863910568919 / 36028797018963968)"
proof -
  have k: "round_half_even ((1080863910568919 / 36028797018963968) * 10000) = 300"
    by (rule round_half_even_near) simp
  have "round_to_double (of_int 300 / 10000) =
      Finite (1080863910568919 / 36028797018963968)"
    by (rule round_to_double_down [where n = 6 and m = 8646911284551352])
      (simp_all add: pow2_def overflow_bound_def)
  then show ?thesis
    by (simp only: py_round4.simps k)
qed

lemma round_0_08:
  "py_round4 (Finite (5764607523034235 / 72057594037927936)) =
     Finite (5764607523034235 / 72057594037927936)"
proof -
  have k: "round_half_even ((5764607523034235 / 72057594037927936) * 10000) = 800"
    by (rule round_half_even_near) simp
  have "round_to_double (of_int 800 / 10000) =
      Finite (5764607523034235 / 72057594037927936)"
    by (rule round_to_double_down [where n = 4 and m = 5764607523034235])
      (simp_all add: pow2_def overflow_bound_def)
  then show ?thesis
    by (simp only: py_round4.simps k)
qed

lemma round_minus_0_08:
  "py_round4 (Finite (- (5764607523034235 / 72057594037927936))) =
     Finite (- (5764607523034235 / 72057594037927936))"
proof -
  have k: "round_half_even ((- (5764607523034235 / 72057594037927936)) * 10000) = - 800"
    by (rule round_half_even_near) simp
  have "round_to_double (of_int (- 800) / 10000) =
      Finite (- (5764607523034235 / 72057594037927936))"
  proof -
    have "round_to_double (2 / 25) =
        Finite (5764607523034235 / 72057594037927936)"
      by (rule round_to_double_down [where n = 4 and m = 5764607523034235])
        (simp_all add: pow2_def overflow_bound_def)
    then have "round_to_double (- (2 / 25)) =
        Finite (- (5764607523034235 / 72057594037927936))"
      by (simp add: round_to_double_minus)
    moreover have "(of_int (- 800) / 10000 :: rat) = - (2 / 25)"
      by simp
    ultimately show ?thesis
      by simp
  qed
  then show ?thesis
    by (simp only: py_round4.simps k)
qed

lemma round_0_0123456:
  "py_round4 (Finite (3558376931818573 / 288230376151711744)) =
     Finite (7090467253332109 / 576460752303423488)"
proof -
  have k: "round_half_even ((3558376931818573 / 288230376151711744) * 10000) = 123"
    by (rule round_half_even_near) simp
  have "round_to_double (of_int 123 / 10000) =
      Finite (7090467253332109 / 576460752303423488)"
    by (rule round_to_double_down [where n = 7 and m = 7090467253332109])
      (simp_all add: pow2_def overflow_bound_def)
  then show ?thesis
    by (simp only: py_round4.simps k)
qed

lemma round_0_00125:
  "py_round4 (Finite (5764607523034235 / 4611686018427387904)) =
     Finite (1498797955988901 / 1152921504606846976)"
proof -
  have k: "round_half_even ((5764607523034235 / 4611686018427387904) * 10000) = 13"
    by (rule round_half_even_near) simp
  have "round_to_double (of_int 13 / 10000) =
      Finite (1498797955988901 / 1152921504606846976)"
    by (rule round_to_double_down [where n = 10 and m = 5995191823955604])
      (simp_all add: pow2_def overflow_bound_def)
  then show ?thesis
    by (simp only: py_round4.simps k)
qed

lemma round_0_00005:
  "py_round4 (Finite (7378697629483821 / 147573952589676412928)) =
     Finite (7378697629483821 / 73786976294838206464)"
proof -
  have k: "round_half_even ((7378697629483821 / 147573952589676412928) * 10000) = 1"
    by (rule round_half_even_near) simp
  have "round_to_double (of_int 1 / 10000) =
      Finite (7378697629483821 / 73786976294838206464)"
    by (rule round_to_double_down [where n = 14 and m = 7378697629483821])
      (simp_all add: pow2_def overflow_bound_def)
  then show ?thesis
    by (simp only: py_round4.simps k)
qed

lemma truediv_500000:
  "int_truediv 500000 (Finite (4638707616191611 / 4503599627370496)) =
     Inr (Finite (8339742322330097 / 17179869184))"
proof (rule int_truediv_finite [where a = 500000])
  show "round_to_double (of_int 500000) = Finite 500000"
    by (rule round_to_double_up [where n = 18 and m = 8589934592000000])
      (simp_all add: pow2_def overflow_bound_def)
  show "(4638707616191611 / 4503599627370496) \<noteq> (0::rat)"
    by simp
  show "round_to_double (500000 / (4638707616191611 / 4503599627370496)) =
      Finite (8339742322330097 / 17179869184)"
    by (rule round_to_double_up [where n = 18 and m = 8339742322330097])
      (simp_all add: pow2_def overflow_bound_def)
qed

lemma int_500000:
  "int_of_float (Finite (8339742322330097 / 17179869184)) = Inr 485436"
  by (rule int_of_float_pos) simp_all

lemma truediv_497000_discount:
  "int_truediv 497000 (Finite (8953156059212547 / 9007199254740992)) =
     Inr (Finite (8589934591999999 / 17179869184))"
proof (rule int_truediv_finite [where a = 497000])
  show "round_to_double (of_int 497000) = Finite 497000"
    by (rule round_to_double_up [where n = 18 and m = 8538394984448000])
      (simp_all add: pow2_def overflow_bound_def)
  show "(8953156059212547 / 9007199254740992) \<noteq> (0::rat)"
    by simp
  show "round_to_double (497000 / (8953156059212547 / 9007199254740992)) =
      Finite (8589934591999999 / 17179869184)"
    by (rule round_to_double_up [where n = 18 and m = 8589934591999999])
      (simp_all add: pow2_def overflow_bound_def)
qed

lemma int_497000_discount:
  "int_of_float (Finite (8589934591999999 / 17179869184)) = Inr 499999"
  by (rule int_of_float_pos) simp_all

lemma truediv_497000_premium:
  "int_truediv 497000 (Finite (4504725527277339 / 4503599627370496)) =
     Inr (Finite (8536260919218195 / 17179869184))"
proof (rule int_truediv_finite [where a = 497000])
  show "round_to_double (of_int 497000) = Finite 497000"
    by (rule round_to_double_up [where n = 18 and m = 8538394984448000])
      (simp_all add: pow2_def overflow_bound_def)
  show "(4504725527277339 / 4503599627370496) \<noteq> (0::rat)"
    by simp
  show "round_to_double (497000 / (4504725527277339 / 4503599627370496)) =
      Finite (8536260919218195 / 17179869184)"
    by (rule round_to_double_up [where n = 18 and m = 8536260919218195])
      (simp_all add: pow2_def overflow_bound_def)
qed

lemma int_497000_premium:
  "int_of_float (Finite (8536260919218195 / 17179869184)) = Inr 496875"
  by (rule int_of_float_pos) simp_all

lemma float_not_a_number:
  "py_float ''abc'' = None"
  "py_float ''n/a'' = None"
  by (simp_all add: str_eval num_eval)

lemmas float_examples = float_103_0 float_103 float_3 float_8 float_minus_8
  float_1_23456 float_0_125 float_0_005 float_1_03 float_99_4
  float_100_025 div_103 div_3 div_8 div_minus_8
  div_1_23456 div_0_125 div_0_005 div_99_4 div_100_025
  sub_1_03 sub_0_994 sub_1_00025 round_ratio_103 round_ratio_99_4
  round_ratio_100_025 round_0_03 round_0_08 round_minus_0_08 round_0_0123456
  round_0_00125 round_0_00005 truediv_500000 int_500000 truediv_497000_discount
  int_497000_discount truediv_497000_premium int_497000_premium
  float_not_a_number

section \<open>The numeric extractor and the optional metrics of the market page\<close>

lemma month_year_example:
  "re_search_in_month_year
     (get_text_strip [''In October 2025, Ridgewood home prices were up 5.0%'']) =
   Some ''October 2025''"
  by (simp add: match_in_month_year_def str_eval)

lemma last_day_example: "get_last_day_of_month platform ''October 2025'' = Some ''10/31/2025''"
  by (cases platform) (simp_all add: date_eval str_eval)

lemma sale_price_example:
  "py_int (keep_digits (get_text_strip [''$500,000''])) = Some 500000"
  "py_int (keep_digits (get_text_strip [''$497,000''])) = Some 497000"
  by (simp_all add: str_eval int_eval)

lemma ratio_example:
  "py_float (remove_char CHR ''%'' (get_text_strip [''103%''])) = Some (Finite 103)"
  "py_float (remove_char CHR ''%'' (get_text_strip [''99.4%''])) = Some (Finite (3497326585629901 / 35184372088832))"
  "py_float (remove_char CHR ''%'' (get_text_strip [''100.025%''])) =
     Some (Finite (3519316818185421 / 35184372088832))"
  by (simp_all add: str_eval float_examples)

lemma core_data_example:
  "core_data platform example_page =
     Inr (Some (''10/31/2025'', 500000, Finite (4638707616191611 / 4503599627370496)))"
  by (simp add: core_data_def example_page_def month_year_example last_day_example
      sale_price_example ratio_example float_examples)

lemma core_data_bad_dom:
  "core_data platform bad_dom_page =
     Inr (Some (''10/31/2025'', 500000, Finite (4638707616191611 / 4503599627370496)))"
  by (simp add: core_data_def bad_dom_page_def example_page_def month_year_example
      last_day_example sale_price_example ratio_example float_examples)

lemma core_data_discount:
  "core_data platform discount_page =
     Inr (Some (''10/31/2025'', 497000, Finite (8953156059212547 / 9007199254740992)))"
  by (simp add: core_data_def discount_page_def example_page_def month_year_example
      last_day_example sale_price_example ratio_example float_examples)

lemma core_data_small_premium:
  "core_data platform small_premium_page =
     Inr (Some (''10/31/2025'', 497000, Finite (4504725527277339 / 4503599627370496)))"
  by (simp add: core_data_def small_premium_page_def example_page_def month_year_example
      last_day_example sale_price_example ratio_example float_examples)

lemma list_price_example:
  "list_price 500000 (Finite (4638707616191611 / 4503599627370496)) = Inr 485436"
  "list_price 497000 (Finite (8953156059212547 / 9007199254740992)) = Inr 499999"
  "list_price 497000 (Finite (4504725527277339 / 4503599627370496)) = Inr 496875"
  by (simp_all add: list_price_def float_examples)

lemma get_clean_number_abc: "get_clean_number (Some [''abc%'']) dflt = Inl ValueError"
  by (simp add: get_clean_number_def str_eval float_examples)

text \<open>
  Claim C3. The numeric extractor turns \<open>103.0%\<close> into 0.03 (the double of that name)
  and \<open>65\<close> into 65, returns the default for an absent element and for text without a
  digit, but on text with a percent sign whose remainder is not a number it raises
  \<open>ValueError\<close>: the conversion in the percent branch is outside any \<open>try\<close>.
\<close>

theorem get_clean_number_percent_raises:
  "get_clean_number (Some [''103.0%'']) dflt =
     Inr (PFloat (Finite (1080863910568919 / 36028797018963968))) \<and>
   get_clean_number (Some [''65'']) dflt = Inr (PInt 65) \<and>
   get_clean_number None dflt = Inr dflt \<and>
   get_clean_number (Some [''n/a'']) dflt = Inr dflt \<and>
   get_clean_number (Some [''abc%'']) dflt = Inl ValueError"
  by (simp add: get_clean_number_def str_eval int_eval float_examples)

text \<open>
  Claim C2. On a page whose three critical extractions succeed, a median days-on-market
  element with the text \<open>abc%\<close> makes the numeric extractor raise; the outer handler
  of the parser catches the exception and the parser returns \<open>None\<close> instead of a
  record with the default 0.
\<close>

theorem optional_metric_aborts_record:
  "core_data GLIBC bad_dom_page =
     Inr (Some (''10/31/2025'', 500000, Finite (4638707616191611 / 4503599627370496))) \<and>
   get_clean_number (median_dom_elem bad_dom_page) (PInt 0) = Inl ValueError \<and>
   scrape_market_summary GLIBC ''Ridgewood'' ''New Jersey'' (Inr bad_dom_page) = None"
proof -
  have dom: "median_dom_elem bad_dom_page = Some [''abc%'']"
    by (simp add: bad_dom_page_def)
  have "market_record ''Ridgewood'' ''New Jersey'' bad_dom_page ''10/31/2025'' 500000
          (Finite (4638707616191611 / 4503599627370496)) = Inl ValueError"
    by (simp add: market_record_def list_price_example dom get_clean_number_abc)
  then show ?thesis
    by (simp add: scrape_market_summary_def core_data_bad_dom dom get_clean_number_abc)
qed

lemma example_metrics:
  "get_clean_number (Some [''21'']) (PInt 0) = Inr (PInt 21)"
  "get_clean_number (Some [''30'']) (PInt 0) = Inr (PInt 30)"
  "get_clean_number (Some [''9'']) (PInt 0) = Inr (PInt 9)"
  "get_clean_number (Some [''85'']) (PInt 0) = Inr (PInt 85)"
  by (simp_all add: get_clean_number_def str_eval int_eval)

lemma example_premiums:
  "get_clean_premium_percentage (Some [''+3%'']) (PFloat (Finite 0)) =
     Inr (PFloat (Finite (1080863910568919 / 36028797018963968)))"
  "get_clean_premium_percentage (Some [''+8%'']) (PFloat (Finite 0)) =
     Inr (PFloat (Finite (5764607523034235 / 72057594037927936)))"
  by (simp_all add: get_clean_premium_percentage_def str_eval float_examples)

lemma market_record_example:
  "market_record ''Ridgewood'' ''New Jersey'' example_page ''10/31/2025'' 500000
     (Finite (4638707616191611 / 4503599627370496)) = Inr example_record"
  by (simp add: market_record_def list_price_example example_page_def example_metrics
      example_premiums float_examples text_of_def py_strip_def is_space_def
      example_record_def)

lemma market_record_discount:
  "market_record ''Ridgewood'' ''New Jersey'' discount_page ''10/31/2025'' 497000
     (Finite (8953156059212547 / 9007199254740992)) = Inr discount_record"
  by (simp add: market_record_def list_price_example discount_page_def example_page_def
      example_metrics example_premiums float_examples text_of_def py_strip_def is_space_def
      discount_record_def)

lemma market_record_small_premium:
  "market_record ''Ridgewood'' ''New Jersey'' small_premium_page ''10/31/2025'' 497000
     (Finite (4504725527277339 / 4503599627370496)) = Inr small_premium_record"
  by (simp add: market_record_def list_price_example small_premium_page_def example_page_def
      example_metrics example_premiums float_examples text_of_def py_strip_def is_space_def
      small_premium_record_def)

lemma scrape_example:
  "scrape_market_summary platform ''Ridgewood'' ''New Jersey'' (Inr example_page) =
     Some example_record"
  by (simp add: scrape_market_summary_def core_data_example market_record_example)

lemma scrape_discount:
  "scrape_market_summary platform ''Ridgewood'' ''New Jersey'' (Inr discount_page) =
     Some discount_record"
  by (simp add: scrape_market_summary_def core_data_discount market_record_discount)

lemma scrape_small_premium:
  "scrape_market_summary platform ''Ridgewood'' ''New Jersey'' (Inr small_premium_page) =
     Some small_premium_record"
  by (simp add: scrape_market_summary_def core_data_small_premium market_record_small_premium)

section \<open>A row with an unreadable date\<close>

lemma strptime_examples:
  "strptime_ymd ''2025-01-15'' = Some (2025, 1, 15)"
  "strptime_ymd ''2025-02-10'' = Some (2025, 2, 10)"
  "strptime_ymd ''15/02/2025'' = None"
  by (simp_all add: date_eval str_eval)

lemma last_day_formatted_example:
  "last_day_formatted platform (2025, Suc 0, 15) = Some ''01/31/2025''"
  "last_day_formatted platform (2025, 2, 10) = Some ''02/28/2025''"
  "last_day_formatted platform (2025, 3, 2) = Some ''03/31/2025''"
  by (cases platform; simp add: date_eval str_eval)+

text \<open>
  Claim C7. A feed with one good row for a target neighbourhood gives that
  neighbourhood's record. The same feed followed by a row for the neighbourhood whose
  date is not in the form \<open>YYYY-MM-DD\<close> gives the empty dictionary: \<open>strptime\<close> is
  called outside the \<open>try\<close> that skips short rows, so its \<open>ValueError\<close> reaches the
  handler of the whole feed and the record of the good row is lost.
\<close>

theorem bad_date_row_discards_feed:
  "scrape_streeteasy_data platform
     (Inr [example_header,
           [''Astoria'', ''Queens'', ''2025-01-15'', ''neighborhood'', ''100'']])
     ''Median_DOM'' [''Astoria''] CSV_COL_INDEXES =
     [(''Astoria'', [(''Date'', PStr ''01/31/2025''), (''Town'', PStr ''Astoria''),
        (''Region'', PStr ''New York City''), (''Median_DOM'', PStr ''100'')])] \<and>
   scrape_streeteasy_data platform
     (Inr [example_header,
           [''Astoria'', ''Queens'', ''2025-01-15'', ''neighborhood'', ''100''],
           [''Astoria'', ''Queens'', ''15/02/2025'', ''neighborhood'', ''300'']])
     ''Median_DOM'' [''Astoria''] CSV_COL_INDEXES = []"
  by (simp add: csv_eval dict_eval strptime_examples last_day_formatted_example)

section \<open>The premium extractor\<close>

lemma remove_absent_char: "c \<notin> set s \<Longrightarrow> remove_char c s = s"
  by (auto simp: remove_char_def filter_id_conv)

lemma premium_general:
  "get_clean_premium_percentage (Some e) dflt =
     (case py_float (remove_char CHR ''+'' (remove_char CHR ''%'' (get_text_strip e))) of
        None \<Rightarrow> Inr dflt
      | Some v \<Rightarrow> Inr (PFloat (py_round4 (float_div_100 v))))"
  by (simp add: get_clean_premium_percentage_def Let_def remove_absent_char)

text \<open>
  Claim C4. The premium extractor returns the default for an absent element; \<open>+8%\<close>
  gives 0.08, \<open>-8%\<close> gives -0.08 and \<open>8%\<close> gives 0.08: the signed number divided by
  100, not the ratio formula. The results are rounded to 4 places: \<open>1.23456%\<close> gives
  0.0123, \<open>0.125%\<close> gives 0.0013 and \<open>0.005%\<close> gives 0.0001, the last two because
  the doubles 0.00125 and 0.00005 lie above the decimal numbers of these names. Each
  result is the double nearest to the decimal number, written as a fraction. In general
  the text without its percent and plus signs is parsed as a float; the result is that
  number divided by 100 and rounded to 4 places, or the default when the text is not a
  number. No exception leaves the function.
\<close>

theorem premium_extractor:
  "get_clean_premium_percentage None dflt = Inr dflt \<and>
   get_clean_premium_percentage (Some [''+8%'']) dflt =
     Inr (PFloat (Finite (5764607523034235 / 72057594037927936))) \<and>
   get_clean_premium_percentage (Some [''-8%'']) dflt =
     Inr (PFloat (Finite (- (5764607523034235 / 72057594037927936)))) \<and>
   get_clean_premium_percentage (Some [''8%'']) dflt =
     Inr (PFloat (Finite (5764607523034235 / 72057594037927936))) \<and>
   get_clean_premium_percentage (Some [''1.23456%'']) dflt =
     Inr (PFloat (Finite (7090467253332109 / 576460752303423488))) \<and>
   get_clean_premium_percentage (Some [''0.125%'']) dflt =
     Inr (PFloat (Finite (1498797955988901 / 1152921504606846976))) \<and>
   get_clean_premium_percentage (Some [''0.005%'']) dflt =
     Inr (PFloat (Finite (7378697629483821 / 73786976294838206464))) \<and>
   get_clean_premium_percentage (Some [''n/a'']) dflt = Inr dflt \<and>
   get_clean_premium_percentage (Some e) dflt =
     (case py_float (remove_char CHR ''+'' (remove_char CHR ''%'' (get_text_strip e))) of
        None \<Rightarrow> Inr dflt
      | Some v \<Rightarrow> Inr (PFloat (py_round4 (float_div_100 v)))) \<and>
   get_clean_premium_percentage element dflt \<noteq> Inl x"
proof -
  have ex: "get_clean_premium_percentage (Some [''+8%'']) dflt =
      Inr (PFloat (Finite (5764607523034235 / 72057594037927936)))"
    "get_clean_premium_percentage (Some [''-8%'']) dflt =
      Inr (PFloat (Finite (- (5764607523034235 / 72057594037927936))))"
    "get_clean_premium_percentage (Some [''8%'']) dflt =
      Inr (PFloat (Finite (5764607523034235 / 72057594037927936)))"
    "get_clean_premium_percentage (Some [''1.23456%'']) dflt =
      Inr (PFloat (Finite (7090467253332109 / 576460752303423488)))"
    "get_clean_premium_percentage (Some [''0.125%'']) dflt =
      Inr (PFloat (Finite (1498797955988901 / 1152921504606846976)))"
    "get_clean_premium_percentage (Some [''0.005%'']) dflt =
      Inr (PFloat (Finite (7378697629483821 / 73786976294838206464)))"
    "get_clean_premium_percentage (Some [''n/a'']) dflt = Inr dflt"
    by (simp_all add: get_clean_premium_percentage_def str_eval float_examples)
  have none: "get_clean_premium_percentage None dflt = Inr dflt"
    by (simp add: get_clean_premium_percentage_def)
  have total: "get_clean_premium_percentage element dflt \<noteq> Inl x"
    by (cases element) (simp_all add: none premium_general split: option.splits)
  show ?thesis
    using ex none total premium_general by blast
qed

section \<open>The derived list price and premium of the market page\<close>

lemma list_price_general:
  assumes "sale_price_elem page = Some spe"
    and "py_int (keep_digits (get_text_strip spe)) = Some s"
    and "ratio_elem page = Some rel"
    and "py_float (remove_char CHR ''%'' (get_text_strip rel)) = Some p"
    and "scrape_market_summary platform town region (Inr page) = Some r"
  shows "\<exists>q. int_truediv s (float_div_100 p) = Inr (Finite q) \<and>
           map_of r ''Median_List_Price'' = Some (PInt (if 0 \<le> q then \<lfloor>q\<rfloor> else \<lceil>q\<rceil>)) \<and>
           map_of r ''Overall_Average_Premium_Paid'' =
             Some (PFloat (py_round4 (float_sub_1 (float_div_100 p))))"
proof -
  from assms(5) obtain fd where core: "core_data platform page = Inr (Some (fd, s, float_div_100 p))"
    using assms(1-4)
    by (auto simp: scrape_market_summary_def core_data_def split: option.splits sum.splits)
  with assms(5) have rec: "market_record town region page fd s (float_div_100 p) = Inr r"
    by (auto simp: scrape_market_summary_def split: sum.splits)
  then obtain n where lp: "list_price s (float_div_100 p) = Inr n"
    by (auto simp: market_record_def split: sum.splits)
  then obtain x where x: "int_truediv s (float_div_100 p) = Inr x" "int_of_float x = Inr n"
    by (auto simp: list_price_def split: sum.splits)
  from x(2) obtain q where q: "x = Finite q" "n = (if 0 \<le> q then \<lfloor>q\<rfloor> else \<lceil>q\<rceil>)"
    by (cases x) (auto simp: int_of_float.simps trunc_rat_def)
  from rec lp have "map_of r ''Median_List_Price'' = Some (PInt n) \<and>
      map_of r ''Overall_Average_Premium_Paid'' =
        Some (PFloat (py_round4 (float_sub_1 (float_div_100 p))))"
    by (auto simp: market_record_def split: sum.splits)
  with x(1) q show ?thesis
    by blast
qed

text \<open>
  Claim C5, as amended. When the sale price parses to \<open>s\<close>, the ratio text parses to a
  percentage \<open>p\<close> and a record is returned, the quotient of \<open>s\<close> and the ratio
  \<open>p / 100\<close> is a finite double, the \<open>Median_List_Price\<close> of the record is that double
  truncated toward zero, and its \<open>Overall_Average_Premium_Paid\<close> is the ratio minus 1.0
  rounded to 4 places, all in double arithmetic. For a sale price of 497000 and a ratio
  of 99.4% the list price is 499999 and the premium -0.006; with a ratio of 100.025% the
  list price is 496875 and the premium 0.0003.
\<close>

theorem list_price_truncated:
  "(sale_price_elem page = Some spe \<and>
    py_int (keep_digits (get_text_strip spe)) = Some s \<and>
    ratio_elem page = Some rel \<and>
    py_float (remove_char CHR ''%'' (get_text_strip rel)) = Some p \<and>
    scrape_market_summary platform town region (Inr page) = Some r \<longrightarrow>
      (\<exists>q. int_truediv s (float_div_100 p) = Inr (Finite q) \<and>
           map_of r ''Median_List_Price'' = Some (PInt (if 0 \<le> q then \<lfloor>q\<rfloor> else \<lceil>q\<rceil>)) \<and>
           map_of r ''Overall_Average_Premium_Paid'' =
             Some (PFloat (py_round4 (float_sub_1 (float_div_100 p)))))) \<and>
   scrape_market_summary platform ''Ridgewood'' ''New Jersey'' (Inr discount_page) =
     Some discount_record \<and>
   map_of discount_record ''Median_List_Price'' = Some (PInt 499999) \<and>
   map_of discount_record ''Overall_Average_Premium_Paid'' =
     Some (PFloat (Finite (- (3458764513820541 / 576460752303423488)))) \<and>
   scrape_market_summary platform ''Ridgewood'' ''New Jersey'' (Inr small_premium_page) =
     Some small_premium_record \<and>
   map_of small_premium_record ''Median_List_Price'' = Some (PInt 496875) \<and>
   map_of small_premium_record ''Overall_Average_Premium_Paid'' =
     Some (PFloat (Finite (5534023222112865 / 18446744073709551616)))"
proof -
  have "map_of discount_record ''Median_List_Price'' = Some (PInt 499999) \<and>
      map_of discount_record ''Overall_Average_Premium_Paid'' =
        Some (PFloat (Finite (- (3458764513820541 / 576460752303423488))))"
    by (simp add: discount_record_def)
  moreover have "map_of small_premium_record ''Median_List_Price'' = Some (PInt 496875) \<and>
      map_of small_premium_record ''Overall_Average_Premium_Paid'' =
        Some (PFloat (Finite (5534023222112865 / 18446744073709551616)))"
    by (simp add: small_premium_record_def)
  ultimately show ?thesis
    using list_price_general [of page spe s rel p platform town region r]
      scrape_discount [of platform] scrape_small_premium [of platform]
    by blast
qed

theorem list_price_truncated_witness:
  "sale_price_elem example_page = Some [''$500,000''] \<and>
   py_int (keep_digits (get_text_strip [''$500,000''])) = Some 500000 \<and>
   ratio_elem example_page = Some [''103%''] \<and>
   py_float (remove_char CHR ''%'' (get_text_strip [''103%''])) = Some (Finite 103) \<and>
   scrape_market_summary GLIBC ''Ridgewood'' ''New Jersey'' (Inr example_page) =
     Some example_record \<and>
   (\<exists>q. int_truediv 500000 (float_div_100 (Finite 103)) = Inr (Finite q) \<and>
        map_of example_record ''Median_List_Price'' =
          Some (PInt (if 0 \<le> q then \<lfloor>q\<rfloor> else \<lceil>q\<rceil>)) \<and>
        map_of example_record ''Overall_Average_Premium_Paid'' =
          Some (PFloat (py_round4 (float_sub_1 (float_div_100 (Finite 103)))))) \<and>
   map_of example_record ''Median_List_Price'' = Some (PInt 485436) \<and>
   map_of example_record ''Overall_Average_Premium_Paid'' =
     Some (PFloat (Finite (1080863910568919 / 36028797018963968)))"
proof -
  have a: "sale_price_elem example_page = Some [''$500,000'']"
    and b: "ratio_elem example_page = Some [''103%'']"
    by (simp_all add: example_page_def)
  have c: "map_of example_record ''Median_List_Price'' = Some (PInt 485436) \<and>
      map_of example_record ''Overall_Average_Premium_Paid'' =
        Some (PFloat (Finite (1080863910568919 / 36028797018963968)))"
    by (simp add: example_record_def)
  show ?thesis
    using list_price_truncated [of example_page "[''$500,000'']" 500000 "[''103%'']"
        "Finite 103" GLIBC "''Ridgewood''" "''New Jersey''" example_record]
      a b c sale_price_example(1) ratio_example(1) scrape_example [of GLIBC]
    by blast
qed

text \<open>
  Claim C5, as stated, fails: for a sale price of 500000 and a ratio of 103% the quotient
  is the double 485436.8932038835, the record holds the list price 485436, and the
  quotient rounded to the nearest integer is 485437.
\<close>

theorem list_price_not_rounded:
  "scrape_market_summary GLIBC ''Ridgewood'' ''New Jersey'' (Inr example_page) =
     Some example_record \<and>
   map_of example_record ''Median_List_Price'' = Some (PInt 485436) \<and>
   int_truediv 500000 (Finite (4638707616191611 / 4503599627370496)) =
     Inr (Finite (8339742322330097 / 17179869184)) \<and>
   round_half_even (8339742322330097 / 17179869184) = 485437"
proof -
  have "round_half_even (8339742322330097 / 17179869184) = 485437"
    by (rule round_half_even_near) simp
  then show ?thesis
    by (simp add: scrape_example example_record_def float_examples)
qed

section \<open>The last day of the month\<close>

lemma below_12_cases:
  assumes "m < 12"
    and "P 0 \<and> P 1 \<and> P 2 \<and> P 3 \<and> P 4 \<and> P 5 \<and> P 6 \<and> P 7 \<and> P 8 \<and> P 9 \<and> P 10 \<and>
         P 11"
  shows "P (m::nat)"
proof -
  from assms(1) have "m = 0 \<or> m = 1 \<or> m = 2 \<or> m = 3 \<or> m = 4 \<or> m = 5 \<or> m = 6 \<or> m = 7 \<or>
      m = 8 \<or> m = 9 \<or> m = 10 \<or> m = 11"
    by arith
  with assms(2) show ?thesis
    by blast
qed

lemma digit_not_space: "is_digit c \<Longrightarrow> \<not> is_space c"
  by (auto simp: is_digit_def is_space_def)

lemma digit_val_le: "digit_val c \<le> 9"
  by (simp add: digit_val_def)

lemma nat_of_digits_snoc: "nat_of_digits (xs @ [c]) = 10 * nat_of_digits xs + digit_val c"
  by (simp add: nat_of_digits_def)

lemma nat_of_digits_bound: "nat_of_digits ds < 10 ^ length ds"
proof (induction ds rule: rev_induct)
  case Nil
  then show ?case by (simp add: nat_of_digits_def)
next
  case (snoc c ds)
  have "digit_val c \<le> 9" by (rule digit_val_le)
  with snoc show ?case
    by (simp add: nat_of_digits_snoc)
qed

lemma match_month_nth:
  assumes "k < length names"
    and "take (length (names ! k)) (map to_lower s) = names ! k"
    and "\<forall>j < k. take (length (names ! j)) (map to_lower s) \<noteq> names ! j"
  shows "match_month s names i = Some (i + k, drop (length (names ! k)) s)"
  using assms
proof (induction names arbitrary: i k)
  case Nil
  then show ?case by simp
next
  case (Cons name names)
  show ?case
  proof (cases k)
    case 0
    with Cons.prems show ?thesis by simp
  next
    case (Suc k')
    from Cons.prems(3) Suc have "take (length name) (map to_lower s) \<noteq> name"
      by auto
    moreover have "match_month s names (Suc i) = Some (Suc i + k', drop (length (names ! k')) s)"
    proof (rule Cons.IH)
      show "k' < length names" using Cons.prems(1) Suc by simp
      show "take (length (names ! k')) (map to_lower s) = names ! k'"
        using Cons.prems(2) Suc by simp
      show "\<forall>j < k'. take (length (names ! j)) (map to_lower s) \<noteq> names ! j"
        using Cons.prems(3) Suc by auto
    qed
    ultimately show ?thesis
      using Suc by simp
  qed
qed

lemma month_names_length: "length month_names = 12"
  by (simp add: month_names_def)

lemma month_names_long: "\<forall>n \<in> set month_names. 3 \<le> length n"
  by (simp add: month_names_def)

lemma month_names_prefix_distinct: "distinct (map (take 3) month_names)"
  by (simp add: month_names_def)

lemma month_prefix3:
  assumes "j < 12" and "take (length (month_names ! j)) l = month_names ! j"
  shows "take 3 l = map (take 3) month_names ! j"
proof -
  have "month_names ! j \<in> set month_names"
    using assms(1) by (simp add: month_names_length)
  then have len: "3 \<le> length (month_names ! j)"
    using month_names_long by blast
  have "take 3 l = take 3 (take (length (month_names ! j)) l)"
    using len by (simp add: min_def)
  also have "\<dots> = take 3 (month_names ! j)"
    using assms(2) by simp
  finally show ?thesis
    using assms(1) by (simp add: month_names_length)
qed

lemma month_unique:
  assumes "j < 12" and "m < 12"
    and "take (length (month_names ! j)) l = month_names ! j"
    and "take (length (month_names ! m)) l = month_names ! m"
  shows "j = m"
proof -
  have "map (take 3) month_names ! j = map (take 3) month_names ! m"
    using month_prefix3 [OF assms(1,3)] month_prefix3 [OF assms(2,4)] by simp
  moreover have "j < length (map (take 3) month_names)" "m < length (map (take 3) month_names)"
    using assms(1,2) by (simp_all add: month_names_length)
  ultimately show ?thesis
    using month_names_prefix_distinct nth_eq_iff_index_eq by blast
qed

lemma match_month_found:
  assumes "m < 12" and "map to_lower s = month_names ! m @ t"
  shows "match_month s month_names 1 = Some (Suc m, drop (length (month_names ! m)) s)"
proof -
  have here: "take (length (month_names ! m)) (map to_lower s) = month_names ! m"
    using assms(2) by simp
  have others: "\<forall>j < m. take (length (month_names ! j)) (map to_lower s) \<noteq> month_names ! j"
  proof (intro allI impI notI)
    fix j
    assume j: "j < m" and "take (length (month_names ! j)) (map to_lower s) = month_names ! j"
    moreover from j assms(1) have "j < 12" by simp
    ultimately have "j = m"
      using month_unique [of j m "map to_lower s"] assms(1) here by blast
    with j show False by simp
  qed
  have "m < length month_names"
    using assms(1) by (simp add: month_names_length)
  from match_month_nth [OF this here others, of 1] show ?thesis
    by simp
qed

lemma match_month_sound:
  "match_month s names i = Some (month, r) \<Longrightarrow>
   \<exists>k < length names. month = i + k \<and> take (length (names ! k)) (map to_lower s) = names ! k \<and>
      r = drop (length (names ! k)) s"
proof (induction names arbitrary: i)
  case Nil
  then show ?case by simp
next
  case (Cons name names)
  show ?case
  proof (cases "take (length name) (map to_lower s) = name")
    case True
    with Cons.prems have "month = i" "r = drop (length name) s"
      by simp_all
    with True show ?thesis
      by (intro exI [of _ 0]) simp
  next
    case False
    with Cons.prems have "match_month s names (Suc i) = Some (month, r)"
      by simp
    from Cons.IH [OF this] obtain k where "k < length names" "month = Suc i + k"
      "take (length (names ! k)) (map to_lower s) = names ! k" "r = drop (length (names ! k)) s"
      by blast
    then show ?thesis
      by (intro exI [of _ "Suc k"]) simp
  qed
qed

lemma monthrange_days:
  assumes "m < 12"
  shows "monthrange y (Suc m) = Some (days_in_month y (Suc m))"
  using assms
  by (rule below_12_cases) (simp add: monthrange_def mdays_def isleap_def days_in_month_def)

lemma days_in_month_ge: "1 \<le> days_in_month y m"
  by (simp add: days_in_month_def)

lemma strptime_month_year_valid:
  assumes "valid_month_year m pre ws ds"
  shows "strptime_month_year (pre @ ws @ ds) = Some (nat_of_digits ds, Suc m, 1)"
proof -
  from assms have m: "m < 12" and pre: "map to_lower pre = month_names ! m"
    and ws: "ws \<noteq> []" "list_all is_space ws"
    and ds: "length ds = 4" "list_all is_digit ds" "nat_of_digits ds \<noteq> 0"
    by (simp_all add: valid_month_year_def)
  have len: "length (month_names ! m) = length pre"
    using pre by (metis length_map)
  have "map to_lower (pre @ ws @ ds) = month_names ! m @ map to_lower (ws @ ds)"
    using pre by simp
  from match_month_found [OF m this]
  have mm: "match_month (pre @ ws @ ds) month_names 1 = Some (Suc m, ws @ ds)"
    by (simp add: len)
  from ds obtain c cs where c: "ds = c # cs" "is_digit c"
    by (cases ds) auto
  have nsp: "\<not> is_space c"
    using c(2) by (rule digit_not_space)
  have tw: "takeWhile is_space (ws @ ds) = ws"
    using ws(2) nsp c(1) by (simp add: takeWhile_append2 list_all_iff)
  have dw: "dropWhile is_space (ws @ ds) = ds"
    using ws(2) nsp c(1) by (simp add: dropWhile_append2 list_all_iff)
  show ?thesis
    unfolding strptime_month_year_def mm
    using ws(1) ds by (simp add: tw dw)
qed

lemma get_last_day_valid:
  assumes "valid_month_year m pre ws ds"
  shows "get_last_day_of_month platform (pre @ ws @ ds) =
     Some (strftime_hash_mdY platform
        (nat_of_digits ds, Suc m, days_in_month (nat_of_digits ds) (Suc m)))"
proof -
  from assms have m: "m < 12" and ds: "length ds = 4" "nat_of_digits ds \<noteq> 0"
    by (simp_all add: valid_month_year_def)
  have "nat_of_digits ds < 10 ^ length ds"
    by (rule nat_of_digits_bound)
  with ds have y: "1 \<le> nat_of_digits ds" "nat_of_digits ds \<le> 9999"
    by simp_all
  have d: "mk_date (nat_of_digits ds) (Suc m) (days_in_month (nat_of_digits ds) (Suc m)) =
      Some (nat_of_digits ds, Suc m, days_in_month (nat_of_digits ds) (Suc m))"
    using y days_in_month_ge [of "nat_of_digits ds" "Suc m"]
    by (simp add: mk_date_def monthrange_days [OF m])
  show ?thesis
    by (simp add: get_last_day_of_month_def strptime_month_year_valid [OF assms]
        monthrange_days [OF m] d)
qed

lemma get_last_day_sound:
  assumes "get_last_day_of_month platform s \<noteq> None"
  shows "\<exists>m pre ws ds. s = pre @ ws @ ds \<and> valid_month_year m pre ws ds"
proof -
  from assms obtain month r where mm: "match_month s month_names 1 = Some (month, r)"
    and ok: "takeWhile is_space r \<noteq> []" "length (dropWhile is_space r) = 4"
      "list_all is_digit (dropWhile is_space r)" "nat_of_digits (dropWhile is_space r) \<noteq> 0"
    by (auto simp: get_last_day_of_month_def strptime_month_year_def Let_def
        split: option.splits if_splits)
  from match_month_sound [OF mm] obtain k where k: "k < length month_names"
    "take (length (month_names ! k)) (map to_lower s) = month_names ! k"
    "r = drop (length (month_names ! k)) s"
    by blast
  let ?n = "length (month_names ! k)"
  have "s = take ?n s @ takeWhile is_space r @ dropWhile is_space r"
    using k(3) by simp
  moreover have "valid_month_year k (take ?n s) (takeWhile is_space r) (dropWhile is_space r)"
    using k(1,2) ok
    by (auto simp: valid_month_year_def month_names_def take_map list_all_iff
        dest: set_takeWhileD)
  ultimately show ?thesis
    by blast
qed

text \<open>
  For every valid month and year text the conversion returns the last calendar day of
  that month, 29 February in leap years. With the Microsoft C runtime the date is printed
  without leading zeros on month and day; with the GNU C library, where the flag \<open>#\<close>
  has no effect, month and day are printed in two digits. A text for which the conversion
  returns a date is a valid one, so every other text gives \<open>None\<close>; the function has
  no exception result.
\<close>

lemma last_day_of_month_valid:
  "(valid_month_year m pre ws ds \<longrightarrow>
      get_last_day_of_month MSVC (pre @ ws @ ds) =
        Some (dec (Suc m) @ ''/'' @ dec (days_in_month (nat_of_digits ds) (Suc m)) @ ''/'' @
              pad4 (nat_of_digits ds)) \<and>
      get_last_day_of_month GLIBC (pre @ ws @ ds) =
        Some (pad2 (Suc m) @ ''/'' @ pad2 (days_in_month (nat_of_digits ds) (Suc m)) @ ''/'' @
              dec (nat_of_digits ds))) \<and>
   (get_last_day_of_month platform s \<noteq> None \<longrightarrow>
      (\<exists>m pre ws ds. s = pre @ ws @ ds \<and> valid_month_year m pre ws ds))"
  using get_last_day_valid [of m pre ws ds] get_last_day_sound [of platform s]
  by simp

lemma last_day_leap_year:
  "get_last_day_of_month MSVC ''February 2024'' = Some ''2/29/2024''"
  "get_last_day_of_month GLIBC ''February 2024'' = Some ''02/29/2024''"
  "get_last_day_of_month MSVC ''March 999'' = None"
  "get_last_day_of_month MSVC ''March 0999'' = Some ''3/31/0999''"
  "get_last_day_of_month GLIBC ''March 0999'' = Some ''03/31/999''"
  by (simp_all add: date_eval str_eval)

text \<open>
  Claim C9. The docstring of the function gives \<open>9/30/2025\<close> for \<open>September 2025\<close>,
  and the format \<open>%#m/%#d/%Y\<close> is chosen to print month and day without a leading
  zero. With the GNU C library, where the flag \<open>#\<close> has no effect on \<open>%m\<close> and
  \<open>%d\<close>, the function returns \<open>09/30/2025\<close>.
\<close>

theorem last_day_glibc_padded:
  "get_last_day_of_month GLIBC ''September 2025'' = Some ''09/30/2025'' \<and>
   get_last_day_of_month GLIBC ''September 2025'' \<noteq> Some ''9/30/2025''"
  by (simp add: date_eval str_eval)

section \<open>The latest row of each neighbourhood\<close>

subsection \<open>Dictionaries\<close>

lemma map_of_dict_set: "map_of (dict_set d k v) = (map_of d)(k \<mapsto> v)"
  by (simp add: dict_set_def update_conv')

lemma distinct_dict_set: "distinct (map fst d) \<Longrightarrow> distinct (map fst (dict_set d k v))"
  by (simp add: dict_set_def distinct_update)

lemma init_fold:
  fixes acc :: town_dict
  assumes "distinct (map fst acc)"
  shows "distinct (map fst (foldl (\<lambda>d town. dict_set d town []) acc ts))"
    and "map_of (foldl (\<lambda>d town. dict_set d town []) acc ts) t =
           (if t \<in> set ts then Some [] else map_of acc t)"
  using assms
proof (induction ts arbitrary: acc)
  case Nil
  {
    case 1
    then show ?case by simp
  next
    case 2
    then show ?case by simp
  }
next
  case (Cons a ts)
  {
    case 1
    then have "distinct (map fst (dict_set acc a []))"
      by (rule distinct_dict_set)
    from Cons.IH(1) [OF this] show ?case by simp
  next
    case 2
    then have "distinct (map fst (dict_set acc a []))"
      by (rule distinct_dict_set)
    from Cons.IH(2) [OF this] show ?case
      by (simp add: map_of_dict_set)
  }
qed

lemma init_town_data_props:
  "distinct (map fst (init_town_data tt))"
  "map_of (init_town_data tt) t = (if t \<in> set tt then Some [] else None)"
  by (simp_all add: init_town_data_def init_fold)

lemma map_of_filter_distinct:
  "distinct (map fst xs) \<Longrightarrow>
   map_of (filter (\<lambda>(k, v). P v) xs) k =
     (case map_of xs k of None \<Rightarrow> None | Some v \<Rightarrow> if P v then Some v else None)"
proof (induction xs)
  case Nil
  then show ?case by simp
next
  case (Cons x xs)
  obtain k' v' where x: "x = (k', v')" by (cases x)
  from Cons.prems x have notin: "k' \<notin> fst ` set xs" and d: "distinct (map fst xs)"
    by auto
  show ?case
  proof (cases "k = k'")
    case True
    have "map_of xs k = None"
      using notin True by (simp add: map_of_eq_None_iff)
    moreover have "map_of (filter (\<lambda>(k, v). P v) xs) k = None"
      using notin True by (auto simp: map_of_eq_None_iff)
    ultimately show ?thesis
      using True x by simp
  next
    case False
    with Cons.IH [OF d] x show ?thesis by simp
  qed
qed

lemma clean_up_keys: "map fst (clean_up td) = map fst td"
  by (induction td) (auto simp: clean_up_def)

lemma map_of_clean_up:
  "map_of (clean_up td) t =
     map_option (\<lambda>entry. if ''_DateTimeObject'' \<in> fst ` set entry
                          then dict_del entry ''_DateTimeObject'' else entry) (map_of td t)"
  unfolding clean_up_def by (simp add: map_of_map)


subsection \<open>Dates\<close>

lemma date_less_irrefl: "\<not> date_less d d"
  by (cases d) auto

lemma date_less_trans: "date_less a b \<Longrightarrow> date_less b c \<Longrightarrow> date_less a c"
  by (cases a; cases b; cases c) auto

lemma date_less_total: "\<not> date_less a b \<Longrightarrow> date_less a c \<Longrightarrow> date_less b c"
  by (cases a; cases b; cases c) auto

declare date_less.simps [simp del]

lemma mk_date_Some:
  "mk_date y m d = Some dt \<Longrightarrow> dt = (y, m, d) \<and> 1 \<le> m \<and> m \<le> 12 \<and> 1 \<le> y \<and> y \<le> 9999"
  by (auto simp: mk_date_def monthrange_def split: option.splits if_splits)

lemma strptime_ymd_valid:
  assumes "strptime_ymd s = Some (y, m, d)"
  shows "1 \<le> m \<and> m \<le> 12 \<and> 1 \<le> y \<and> y \<le> 9999"
proof -
  from assms obtain y' m' d' where "mk_date y' m' d' = Some (y, m, d)"
    by (auto simp: strptime_ymd_def split: if_splits list.splits option.splits)
  from mk_date_Some [OF this] show ?thesis
    by simp
qed

lemma last_day_formatted_valid:
  assumes "strptime_ymd s = Some dt"
  shows "last_day_formatted platform dt = Some (month_end platform dt)"
proof -
  obtain y m d where dt: "dt = (y, m, d)" by (cases dt)
  from strptime_ymd_valid [OF assms [unfolded dt]]
  have m: "1 \<le> m" "m \<le> 12" and y: "1 \<le> y" "y \<le> 9999"
    by simp_all
  from m obtain k where k: "m = Suc k" "k < 12"
    by (cases m) auto
  have mr: "monthrange y m = Some (days_in_month y m)"
    unfolding k(1) using k(2) by (rule monthrange_days)
  have md: "mk_date y m (days_in_month y m) = Some (y, m, days_in_month y m)"
    using y days_in_month_ge [of y m] by (simp add: mk_date_def mr)
  show ?thesis
    by (simp add: last_day_formatted_def dt mr md month_end_def)
qed


subsection \<open>Entries\<close>

lemma store_row_empty:
  "metric_key \<notin> reserved_keys \<Longrightarrow>
   store_row metric_key t d fs v [] = full_entry metric_key t d fs v"
  by (auto simp: store_row_def full_entry_def dict_set_def reserved_keys_def)

lemma store_row_full:
  "metric_key \<notin> reserved_keys \<Longrightarrow>
   store_row metric_key t d fs v (full_entry metric_key t d' fs' v') =
     full_entry metric_key t d fs v"
  by (auto simp: store_row_def full_entry_def dict_set_def reserved_keys_def)

lemma is_later_empty: "is_later d [] = Inr True"
  by (simp add: is_later_def)

lemma is_later_full: "is_later d (full_entry metric_key t d' fs' v') = Inr (date_less d' d)"
  by (simp add: is_later_def full_entry_def dict_get_def)

lemma clean_full_entry:
  "metric_key \<notin> reserved_keys \<Longrightarrow>
   (if ''_DateTimeObject'' \<in> fst ` set (full_entry metric_key t d fs v)
    then dict_del (full_entry metric_key t d fs v) ''_DateTimeObject''
    else full_entry metric_key t d fs v) = final_entry metric_key t fs v"
  by (auto simp: full_entry_def final_entry_def dict_del_def reserved_keys_def)

subsection \<open>The rows of one neighbourhood\<close>

lemma town_rows_snoc:
  "town_rows csv_idx t (seen @ [row]) =
     town_rows csv_idx t seen @ (case town_row csv_idx t row of None \<Rightarrow> [] | Some x \<Rightarrow> [x])"
  by (simp add: town_rows_def map_filter_def split: option.splits)

lemma is_latest_single: "is_latest [x] 0"
  by (simp add: is_latest_def date_less_irrefl)

lemma is_latest_keep:
  assumes "is_latest xs i" and "\<not> date_less (fst (xs ! i)) d"
  shows "is_latest (xs @ [(d, v)]) i"
  using assms by (auto simp: is_latest_def nth_append less_Suc_eq)

lemma is_latest_replace:
  assumes "is_latest xs i" and "date_less (fst (xs ! i)) d"
  shows "is_latest (xs @ [(d, v)]) (length xs)"
proof -
  have a: "\<forall>j < length xs. date_less (fst (xs ! j)) d"
  proof (intro allI impI)
    fix j assume "j < length xs"
    with assms(1) have "\<not> date_less (fst (xs ! i)) (fst (xs ! j))"
      by (simp add: is_latest_def)
    from date_less_total [OF this assms(2)] show "date_less (fst (xs ! j)) d" .
  qed
  have "\<forall>j < length xs. \<not> date_less d (fst (xs ! j))"
  proof (intro allI impI notI)
    fix j assume "j < length xs" and "date_less d (fst (xs ! j))"
    with a have "date_less d d"
      using date_less_trans by blast
    then show False
      by (simp add: date_less_irrefl)
  qed
  with a show ?thesis
    by (auto simp: is_latest_def nth_append less_Suc_eq date_less_irrefl)
qed

lemma process_row_alt:
  "process_row platform metric_key target_towns csv_idx town_data row =
     (case row_fields csv_idx row of
        None \<Rightarrow> Inr town_data
      | Some (town, date_str, val) \<Rightarrow>
          if town \<in> set target_towns then
            (case strptime_ymd date_str of
               None \<Rightarrow> Inl ValueError
             | Some current_date \<Rightarrow>
            (case map_of town_data town of
               None \<Rightarrow> Inl KeyError
             | Some entry \<Rightarrow>
            (case is_later current_date entry of
               Inl e \<Rightarrow> Inl e
             | Inr False \<Rightarrow> Inr town_data
             | Inr True \<Rightarrow>
                 (case last_day_formatted platform current_date of
                    None \<Rightarrow> Inl ValueError
                  | Some formatted_date_str \<Rightarrow>
                      Inr (dict_set town_data town
                             (store_row metric_key town current_date formatted_date_str val
                                entry))))))
          else Inr town_data)"
  by (simp add: process_row_def row_fields_def split: option.splits)


subsection \<open>The invariant of the loop over the rows\<close>

lemma town_row_none: "row_fields csv_idx row = None \<Longrightarrow> town_row csv_idx t row = None"
  by (simp add: town_row_def)

lemma town_row_other:
  "row_fields csv_idx row = Some (town, date_str, val) \<Longrightarrow> t \<noteq> town \<Longrightarrow>
   town_row csv_idx t row = None"
  by (simp add: town_row_def)

lemma town_row_same:
  "row_fields csv_idx row = Some (town, date_str, val) \<Longrightarrow> strptime_ymd date_str = Some d \<Longrightarrow>
   town_row csv_idx town row = Some (d, val)"
  by (simp add: town_row_def)

lemma rows_inv_unchanged:
  assumes "rows_inv platform metric_key target_towns csv_idx town_data seen"
    and "\<forall>t \<in> set target_towns. town_row csv_idx t row = None"
  shows "rows_inv platform metric_key target_towns csv_idx town_data (seen @ [row])"
  using assms by (simp add: rows_inv_def town_rows_snoc)

lemma rows_inv_keep:
  assumes "rows_inv platform metric_key target_towns csv_idx town_data seen"
    and "row_fields csv_idx row = Some (town, date_str, val)"
    and "strptime_ymd date_str = Some d"
    and "slot_ok platform metric_key town (map_of town_data town)
           (town_rows csv_idx town seen @ [(d, val)])"
  shows "rows_inv platform metric_key target_towns csv_idx town_data (seen @ [row])"
  unfolding rows_inv_def
proof (intro conjI ballI)
  show "distinct (map fst town_data)"
    using assms(1) by (simp add: rows_inv_def)
  show "\<forall>t. t \<notin> set target_towns \<longrightarrow> map_of town_data t = None"
    using assms(1) by (simp add: rows_inv_def)
next
  fix t assume t: "t \<in> set target_towns"
  show "slot_ok platform metric_key t (map_of town_data t) (town_rows csv_idx t (seen @ [row]))"
  proof (cases "t = town")
    case True
    then show ?thesis
      using assms(4) by (simp add: town_rows_snoc town_row_same [OF assms(2,3)])
  next
    case False
    then show ?thesis
      using assms(1) t by (simp add: rows_inv_def town_rows_snoc town_row_other [OF assms(2)])
  qed
qed

lemma rows_inv_update:
  assumes "rows_inv platform metric_key target_towns csv_idx town_data seen"
    and "town \<in> set target_towns"
    and "row_fields csv_idx row = Some (town, date_str, val)"
    and "strptime_ymd date_str = Some d"
    and "slot_ok platform metric_key town (Some entry) (town_rows csv_idx town seen @ [(d, val)])"
  shows "rows_inv platform metric_key target_towns csv_idx (dict_set town_data town entry) (seen @ [row])"
  unfolding rows_inv_def
proof (intro conjI ballI)
  show "distinct (map fst (dict_set town_data town entry))"
    using assms(1) by (simp add: rows_inv_def distinct_dict_set)
  show "\<forall>t. t \<notin> set target_towns \<longrightarrow> map_of (dict_set town_data town entry) t = None"
    using assms(1,2) by (auto simp: rows_inv_def map_of_dict_set)
next
  fix t assume t: "t \<in> set target_towns"
  show "slot_ok platform metric_key t (map_of (dict_set town_data town entry) t)
          (town_rows csv_idx t (seen @ [row]))"
  proof (cases "t = town")
    case True
    then show ?thesis
      using assms(5)
      by (simp add: town_rows_snoc town_row_same [OF assms(3,4)] map_of_dict_set)
  next
    case False
    then show ?thesis
      using assms(1) t
      by (simp add: rows_inv_def town_rows_snoc town_row_other [OF assms(3)] map_of_dict_set)
  qed
qed

lemma process_row_target:
  assumes "metric_key \<notin> reserved_keys"
    and "rows_inv platform metric_key target_towns csv_idx town_data seen"
    and "row_fields csv_idx row = Some (town, date_str, val)"
    and "town \<in> set target_towns"
    and "strptime_ymd date_str = Some d"
  shows "\<exists>town_data'. process_row platform metric_key target_towns csv_idx town_data row = Inr town_data' \<and>
           rows_inv platform metric_key target_towns csv_idx town_data' (seen @ [row])"
proof -
  let ?xs = "town_rows csv_idx town seen"
  have ldf: "last_day_formatted platform d = Some (month_end platform d)"
    using assms(5) by (rule last_day_formatted_valid)
  have slot: "slot_ok platform metric_key town (map_of town_data town) ?xs"
    using assms(2,4) by (simp add: rows_inv_def)
  then consider
    (empty) "?xs = []" "map_of town_data town = Some []"
    | (full) i where "is_latest ?xs i"
        "map_of town_data town =
           Some (full_entry metric_key town (fst (?xs ! i)) (month_end platform (fst (?xs ! i)))
                  (snd (?xs ! i)))"
    unfolding slot_ok_def by blast
  then show ?thesis
  proof cases
    case empty
    have run: "process_row platform metric_key target_towns csv_idx town_data row =
        Inr (dict_set town_data town (full_entry metric_key town d (month_end platform d) val))"
      by (simp add: process_row_alt assms(3,4,5) empty(2) is_later_empty ldf
          store_row_empty [OF assms(1)])
    have "slot_ok platform metric_key town (Some (full_entry metric_key town d (month_end platform d) val))
            (?xs @ [(d, val)])"
      unfolding slot_ok_def empty(1)
      by (intro disjI2 exI [of _ 0]) (simp add: is_latest_single)
    from rows_inv_update [OF assms(2,4,3,5) this] run show ?thesis
      by simp
  next
    case full
    let ?d0 = "fst (?xs ! i)"
    have i: "i < length ?xs"
      using full(1) by (simp add: is_latest_def)
    show ?thesis
    proof (cases "date_less ?d0 d")
      case True
      have run: "process_row platform metric_key target_towns csv_idx town_data row =
          Inr (dict_set town_data town (full_entry metric_key town d (month_end platform d) val))"
        by (simp add: process_row_alt assms(3,4,5) full(2) is_later_full True ldf
            store_row_full [OF assms(1)])
      have "slot_ok platform metric_key town (Some (full_entry metric_key town d (month_end platform d) val))
              (?xs @ [(d, val)])"
        unfolding slot_ok_def
        by (intro disjI2 exI [of _ "length ?xs"])
          (simp add: is_latest_replace [OF full(1) True])
      from rows_inv_update [OF assms(2,4,3,5) this] run show ?thesis
        by simp
    next
      case False
      have run: "process_row platform metric_key target_towns csv_idx town_data row = Inr town_data"
        by (simp add: process_row_alt assms(3,4,5) full(2) is_later_full False)
      have "slot_ok platform metric_key town (map_of town_data town) (?xs @ [(d, val)])"
        unfolding slot_ok_def full(2)
        by (intro disjI2 exI [of _ i])
          (simp add: is_latest_keep [OF full(1) False] nth_append i)
      from rows_inv_keep [OF assms(2,3,5) this] run show ?thesis
        by simp
    qed
  qed
qed

lemma process_row_skip:
  assumes "rows_inv platform metric_key target_towns csv_idx town_data seen"
    and "row_fields csv_idx row = None \<or>
         (\<exists>town date_str val. row_fields csv_idx row = Some (town, date_str, val) \<and>
            town \<notin> set target_towns)"
  shows "process_row platform metric_key target_towns csv_idx town_data row = Inr town_data \<and>
         rows_inv platform metric_key target_towns csv_idx town_data (seen @ [row])"
proof -
  have run: "process_row platform metric_key target_towns csv_idx town_data row = Inr town_data"
    using assms(2) by (auto simp: process_row_alt)
  have "\<forall>t \<in> set target_towns. town_row csv_idx t row = None"
    using assms(2) by (auto simp: town_row_def)
  from rows_inv_unchanged [OF assms(1) this] run show ?thesis
    by simp
qed


lemma process_row_step:
  assumes "metric_key \<notin> reserved_keys"
    and "rows_inv platform metric_key target_towns csv_idx town_data seen"
    and "process_row platform metric_key target_towns csv_idx town_data row = Inr town_data'"
  shows "rows_inv platform metric_key target_towns csv_idx town_data' (seen @ [row])"
proof (cases "row_fields csv_idx row")
  case None
  with process_row_skip [OF assms(2), of row] assms(3) show ?thesis
    by simp
next
  case (Some f)
  obtain town date_str val where f: "f = (town, date_str, val)"
    by (cases f)
  show ?thesis
  proof (cases "town \<in> set target_towns")
    case False
    with process_row_skip [OF assms(2), of row] assms(3) Some f show ?thesis
      by simp
  next
    case True
    from assms(3) Some f True obtain d where d: "strptime_ymd date_str = Some d"
      by (auto simp: process_row_alt split: option.splits)
    from process_row_target [OF assms(1,2) Some [unfolded f] True d] assms(3)
    show ?thesis
      by auto
  qed
qed

lemma process_rows_inv:
  assumes "metric_key \<notin> reserved_keys"
  shows "rows_inv platform metric_key target_towns csv_idx town_data seen \<Longrightarrow>
         process_rows platform metric_key target_towns csv_idx rows town_data = Inr town_data' \<Longrightarrow>
         rows_inv platform metric_key target_towns csv_idx town_data' (seen @ rows)"
proof (induction rows arbitrary: town_data seen)
  case Nil
  then show ?case by simp
next
  case (Cons row rows)
  from Cons.prems(2) obtain td1 where
    one: "process_row platform metric_key target_towns csv_idx town_data row = Inr td1"
    and rest: "process_rows platform metric_key target_towns csv_idx rows td1 = Inr town_data'"
    by (auto split: sum.splits)
  have "rows_inv platform metric_key target_towns csv_idx td1 (seen @ [row])"
    using assms Cons.prems(1) one by (rule process_row_step)
  from Cons.IH [OF this rest] show ?case
    by simp
qed

lemma process_rows_progress:
  assumes "metric_key \<notin> reserved_keys"
  shows "rows_inv platform metric_key target_towns csv_idx town_data seen \<Longrightarrow>
         dates_parse csv_idx target_towns rows \<Longrightarrow>
         \<exists>town_data'. process_rows platform metric_key target_towns csv_idx rows town_data = Inr town_data'"
proof (induction rows arbitrary: town_data seen)
  case Nil
  then show ?case by simp
next
  case (Cons row rows)
  have rest: "dates_parse csv_idx target_towns rows"
    using Cons.prems(2) by (simp add: dates_parse_def)
  have "\<exists>td1. process_row platform metric_key target_towns csv_idx town_data row = Inr td1 \<and>
          rows_inv platform metric_key target_towns csv_idx td1 (seen @ [row])"
  proof (cases "row_fields csv_idx row")
    case None
    with process_row_skip [OF Cons.prems(1), of row] show ?thesis
      by simp
  next
    case (Some f)
    obtain town date_str val where f: "f = (town, date_str, val)"
      by (cases f)
    show ?thesis
    proof (cases "town \<in> set target_towns")
      case False
      with process_row_skip [OF Cons.prems(1), of row] Some f show ?thesis
        by simp
    next
      case True
      with Cons.prems(2) Some f obtain d where d: "strptime_ymd date_str = Some d"
        by (auto simp: dates_parse_def)
      from process_row_target [OF assms Cons.prems(1) Some [unfolded f] True d]
      show ?thesis .
    qed
  qed
  then obtain td1 where
    one: "process_row platform metric_key target_towns csv_idx town_data row = Inr td1"
    and inv: "rows_inv platform metric_key target_towns csv_idx td1 (seen @ [row])"
    by blast
  from Cons.IH [OF inv rest] one show ?case
    by simp
qed

lemma rows_inv_init: "rows_inv platform metric_key target_towns csv_idx (init_town_data target_towns) []"
  by (simp add: rows_inv_def init_town_data_props slot_ok_def town_rows_def)

subsection \<open>The returned dictionary\<close>

lemma result_lookup:
  assumes "distinct (map fst town_data)"
  shows "map_of (filter (\<lambda>(k, v). v \<noteq> []) (clean_up town_data)) t =
     (case map_of town_data t of
        None \<Rightarrow> None
      | Some entry \<Rightarrow>
          (let cleaned = (if ''_DateTimeObject'' \<in> fst ` set entry
                          then dict_del entry ''_DateTimeObject'' else entry)
           in if cleaned \<noteq> [] then Some cleaned else None))"
proof -
  have "distinct (map fst (clean_up town_data))"
    using assms by (simp add: clean_up_keys)
  from map_of_filter_distinct [OF this, of "\<lambda>v. v \<noteq> []" t] show ?thesis
    by (simp add: map_of_clean_up Let_def split: option.splits)
qed

lemma result_none:
  assumes "rows_inv platform metric_key target_towns csv_idx town_data seen"
    and "t \<notin> set target_towns \<or> town_rows csv_idx t seen = []"
  shows "map_of (filter (\<lambda>(k, v). v \<noteq> []) (clean_up town_data)) t = None"
proof -
  have d: "distinct (map fst town_data)"
    using assms(1) by (simp add: rows_inv_def)
  have "map_of town_data t = None \<or> map_of town_data t = Some []"
    using assms by (auto simp: rows_inv_def slot_ok_def is_latest_def)
  then show ?thesis
    by (auto simp: result_lookup [OF d])
qed

lemma result_some:
  assumes "metric_key \<notin> reserved_keys"
    and "rows_inv platform metric_key target_towns csv_idx town_data seen"
    and "t \<in> set target_towns" and "town_rows csv_idx t seen \<noteq> []"
  shows "\<exists>i. is_latest (town_rows csv_idx t seen) i \<and>
     map_of (filter (\<lambda>(k, v). v \<noteq> []) (clean_up town_data)) t =
       Some (final_entry metric_key t (month_end platform (fst (town_rows csv_idx t seen ! i)))
              (snd (town_rows csv_idx t seen ! i)))"
proof -
  let ?xs = "town_rows csv_idx t seen"
  have d: "distinct (map fst town_data)"
    using assms(2) by (simp add: rows_inv_def)
  from assms(2,3,4) obtain i where i: "is_latest ?xs i"
    and e: "map_of town_data t =
      Some (full_entry metric_key t (fst (?xs ! i)) (month_end platform (fst (?xs ! i))) (snd (?xs ! i)))"
    by (auto simp: rows_inv_def slot_ok_def)
  have "map_of (filter (\<lambda>(k, v). v \<noteq> []) (clean_up town_data)) t =
      Some (final_entry metric_key t (month_end platform (fst (?xs ! i))) (snd (?xs ! i)))"
    unfolding result_lookup [OF d] e
    by (simp add: clean_full_entry [OF assms(1)] Let_def) (simp add: final_entry_def)
  with i show ?thesis
    by blast
qed


lemma scrape_success:
  assumes "metric_key \<notin> reserved_keys"
    and "dates_parse csv_idx target_towns rows"
  shows "\<exists>town_data. rows_inv platform metric_key target_towns csv_idx town_data rows \<and>
     scrape_streeteasy_data platform (Inr (header # rows)) metric_key target_towns csv_idx =
       filter (\<lambda>(k, v). v \<noteq> []) (clean_up town_data)"
proof -
  note init = rows_inv_init [of platform metric_key target_towns csv_idx]
  from process_rows_progress [OF assms(1) init assms(2)] obtain town_data where
    run: "process_rows platform metric_key target_towns csv_idx rows (init_town_data target_towns) =
      Inr town_data"
    by blast
  from process_rows_inv [OF assms(1) init run]
  have "rows_inv platform metric_key target_towns csv_idx town_data rows"
    by simp
  then show ?thesis
    using run by (auto simp: scrape_streeteasy_data_def)
qed

text \<open>
  The result for a feed with readable dates. The first row is the header and the metric
  key is not one of the parser's own keys; every target row with enough columns has a
  readable date. Then a neighbourhood outside the target set, or without a row of its own
  among the rows with enough columns, has no record; every other target neighbourhood has
  the record of the row with the maximum date among its rows, the first such row when
  dates tie, and the \<open>Date\<close> of the record is the last day of that row's month.
\<close>

lemma latest_row_of_readable_feed:
  assumes "metric_key \<notin> reserved_keys"
    and "dates_parse csv_idx target_towns rows"
  shows "(t \<notin> set target_towns \<or> town_rows csv_idx t rows = [] \<longrightarrow>
            map_of (scrape_streeteasy_data platform (Inr (header # rows)) metric_key target_towns csv_idx) t =
              None) \<and>
         (t \<in> set target_towns \<and> town_rows csv_idx t rows \<noteq> [] \<longrightarrow>
            (\<exists>i. is_latest (town_rows csv_idx t rows) i \<and>
               map_of (scrape_streeteasy_data platform (Inr (header # rows)) metric_key target_towns
                         csv_idx) t =
                 Some (final_entry metric_key t (month_end platform (fst (town_rows csv_idx t rows ! i)))
                        (snd (town_rows csv_idx t rows ! i)))))"
proof -
  from scrape_success [OF assms] obtain town_data where
    inv: "rows_inv platform metric_key target_towns csv_idx town_data rows"
    and res: "scrape_streeteasy_data platform (Inr (header # rows)) metric_key target_towns csv_idx =
       filter (\<lambda>(k, v). v \<noteq> []) (clean_up town_data)"
    by blast
  show ?thesis
    unfolding res
    using result_none [OF inv, of t] result_some [OF assms(1) inv, of t]
    by blast
qed

lemma example_dates:
  "strptime_ymd ''2025-01-15'' = Some (2025, 1, 15)"
  "strptime_ymd ''2025-03-02'' = Some (2025, 3, 2)"
  "strptime_ymd ''2025-04-01'' = Some (2025, 4, 1)"
  by (simp_all add: date_eval str_eval)

lemma example_row_fields:
  "map (row_fields CSV_COL_INDEXES) example_rows =
     [Some (''Astoria'', ''2025-01-15'', ''100''), Some (''Astoria'', ''2025-03-02'', ''300''),
      Some (''Harlem'', ''2025-04-01'', ''9''), None,
      Some (''Astoria'', ''2025-03-02'', ''301'')]"
  by (simp add: example_rows_def row_fields_def py_index_def CSV_COL_INDEXES_def)

lemma example_town_rows:
  "town_rows CSV_COL_INDEXES ''Astoria'' example_rows =
     [((2025, 1, 15), ''100''), ((2025, 3, 2), ''300''), ((2025, 3, 2), ''301'')]"
  using example_row_fields
  by (simp add: town_rows_def map_filter_def town_row_def example_rows_def example_dates)

lemma example_dates_parse: "dates_parse CSV_COL_INDEXES [''Astoria'', ''Chelsea''] example_rows"
  using example_row_fields
  by (simp add: dates_parse_def example_rows_def example_dates)

lemma latest_row_example:
  "\<exists>i. is_latest (town_rows CSV_COL_INDEXES ''Astoria'' example_rows) i \<and>
     map_of (scrape_streeteasy_data platform (Inr (example_header # example_rows)) ''Median_DOM''
               [''Astoria'', ''Chelsea''] CSV_COL_INDEXES) ''Astoria'' =
       Some (final_entry ''Median_DOM'' ''Astoria''
               (month_end platform (fst (town_rows CSV_COL_INDEXES ''Astoria'' example_rows ! i)))
               (snd (town_rows CSV_COL_INDEXES ''Astoria'' example_rows ! i)))"
proof -
  have k: "''Median_DOM'' \<notin> reserved_keys"
    by (simp add: reserved_keys_def)
  have t: "''Astoria'' \<in> set [''Astoria'', ''Chelsea''] \<and>
      town_rows CSV_COL_INDEXES ''Astoria'' example_rows \<noteq> []"
    by (simp add: example_town_rows)
  from latest_row_of_readable_feed [OF k example_dates_parse, of "''Astoria''" platform example_header] t
  show ?thesis
    by blast
qed

lemma scrape_example_rows:
  "scrape_streeteasy_data platform (Inr (example_header # example_rows)) ''Median_DOM''
     [''Astoria'', ''Chelsea''] CSV_COL_INDEXES =
   [(''Astoria'', final_entry ''Median_DOM'' ''Astoria'' ''03/31/2025'' ''300'')]"
  by (simp add: example_rows_def csv_eval dict_eval example_dates last_day_formatted_example
      date_less.simps final_entry_def)

text \<open>
  Claim C6. On the example feed, whose dates are readable, Astoria keeps the first of its
  two rows with the latest date, and the date of the record is the last day of that month.
  But the retained row of a neighbourhood is lost when another row of the feed has an
  unreadable date: the feed with one row for Chelsea gives Chelsea's record, and the same
  feed followed by a row for Astoria with the date \<open>15/02/2025\<close> gives the empty
  dictionary. \<open>strptime\<close> is called outside the \<open>try\<close> that skips short rows, so
  its \<open>ValueError\<close> reaches the handler of the whole feed.
\<close>

theorem unreadable_date_loses_latest_rows:
  "scrape_streeteasy_data platform (Inr (example_header # example_rows)) ''Median_DOM''
     [''Astoria'', ''Chelsea''] CSV_COL_INDEXES =
     [(''Astoria'', [(''Date'', PStr ''03/31/2025''), (''Town'', PStr ''Astoria''),
        (''Region'', PStr ''New York City''), (''Median_DOM'', PStr ''300'')])] \<and>
   scrape_streeteasy_data platform (Inr chelsea_feed) ''Median_DOM''
     [''Astoria'', ''Chelsea''] CSV_COL_INDEXES =
     [(''Chelsea'', [(''Date'', PStr ''02/28/2025''), (''Town'', PStr ''Chelsea''),
        (''Region'', PStr ''New York City''), (''Median_DOM'', PStr ''42'')])] \<and>
   scrape_streeteasy_data platform (Inr chelsea_astoria_feed) ''Median_DOM''
     [''Astoria'', ''Chelsea''] CSV_COL_INDEXES = []"
  by (simp add: example_rows_def chelsea_feed_def chelsea_astoria_feed_def csv_eval dict_eval
      example_dates strptime_examples last_day_formatted_example date_less.simps)

text \<open>
  Claim C10. For every response, every key of the returned dictionary is a target
  neighbourhood, and the record under it has \<open>Town\<close> equal to the key, \<open>Region\<close>
  equal to \<open>New York City\<close>, a \<open>Date\<close>, and no \<open>_DateTimeObject\<close> key.
\<close>

theorem streeteasy_records_wellformed:
  assumes "metric_key \<notin> reserved_keys"
    and "(town, entry) \<in> set (scrape_streeteasy_data platform response metric_key target_towns csv_idx)"
  shows "town \<in> set target_towns \<and>
         map_of entry ''Town'' = Some (PStr town) \<and>
         map_of entry ''Region'' = Some (PStr ''New York City'') \<and>
         (\<exists>d. map_of entry ''Date'' = Some (PStr d)) \<and>
         ''_DateTimeObject'' \<notin> fst ` set entry"
proof -
  from assms(2) obtain header rows where r: "response = Inr (header # rows)"
    by (auto simp: scrape_streeteasy_data_def split: sum.splits list.splits)
  with assms(2) obtain town_data where
    run: "process_rows platform metric_key target_towns csv_idx rows (init_town_data target_towns) =
      Inr town_data"
    by (cases "process_rows platform metric_key target_towns csv_idx rows (init_town_data target_towns)")
      (auto simp: scrape_streeteasy_data_def)
  from assms(2) r run
  have mem: "(town, entry) \<in> set (filter (\<lambda>(k, v). v \<noteq> []) (clean_up town_data))"
    by (simp add: scrape_streeteasy_data_def)
  from process_rows_inv [OF assms(1) rows_inv_init run]
  have inv: "rows_inv platform metric_key target_towns csv_idx town_data rows"
    by simp
  then have "distinct (map fst town_data)"
    by (simp add: rows_inv_def)
  then have "distinct (map fst (filter (\<lambda>(k, v). v \<noteq> []) (clean_up town_data)))"
    by (simp add: distinct_map_filter clean_up_keys)
  with mem have look: "map_of (filter (\<lambda>(k, v). v \<noteq> []) (clean_up town_data)) town = Some entry"
    by simp
  have target: "town \<in> set target_towns \<and> town_rows csv_idx town rows \<noteq> []"
    using result_none [OF inv, of town] look by auto
  with result_some [OF assms(1) inv, of town] look obtain fs v where
    "entry = final_entry metric_key town fs v"
    by auto
  with target assms(1) show ?thesis
    by (auto simp: final_entry_def reserved_keys_def)
qed


theorem streeteasy_records_wellformed_witness:
  "(''Astoria'', final_entry ''Median_DOM'' ''Astoria'' ''03/31/2025'' ''300'') \<in>
     set (scrape_streeteasy_data GLIBC (Inr (example_header # example_rows)) ''Median_DOM''
            [''Astoria'', ''Chelsea''] CSV_COL_INDEXES) \<and>
   ''Astoria'' \<in> set [''Astoria'', ''Chelsea''] \<and>
   map_of (final_entry ''Median_DOM'' ''Astoria'' ''03/31/2025'' ''300'') ''Town'' =
     Some (PStr ''Astoria'') \<and>
   map_of (final_entry ''Median_DOM'' ''Astoria'' ''03/31/2025'' ''300'') ''Region'' =
     Some (PStr ''New York City'') \<and>
   (\<exists>d. map_of (final_entry ''Median_DOM'' ''Astoria'' ''03/31/2025'' ''300'') ''Date'' =
     Some (PStr d)) \<and>
   ''_DateTimeObject'' \<notin> fst ` set (final_entry ''Median_DOM'' ''Astoria'' ''03/31/2025'' ''300'')"
proof -
  have k: "''Median_DOM'' \<notin> reserved_keys"
    by (simp add: reserved_keys_def)
  have mem: "(''Astoria'', final_entry ''Median_DOM'' ''Astoria'' ''03/31/2025'' ''300'') \<in>
     set (scrape_streeteasy_data GLIBC (Inr (example_header # example_rows)) ''Median_DOM''
            [''Astoria'', ''Chelsea''] CSV_COL_INDEXES)"
    by (simp add: scrape_example_rows)
  from streeteasy_records_wellformed [OF k mem] mem show ?thesis
    by blast
qed

section \<open>The merge and calculation steps\<close>

lemma map_of_dict_update:
  "distinct (map fst data) \<Longrightarrow> map_of (dict_update d data) = map_of d ++ map_of data"
proof (induction data arbitrary: d)
  case Nil
  then show ?case by (simp add: dict_update_def)
next
  case (Cons x data)
  obtain k v where x: "x = (k, v)" by (cases x)
  from Cons.prems x have k: "k \<notin> fst ` set data" and d: "distinct (map fst data)"
    by auto
  have "dict_update d (x # data) = dict_update (dict_set d k v) data"
    by (simp add: dict_update_def x)
  also have "map_of \<dots> = (map_of d)(k \<mapsto> v) ++ map_of data"
    by (simp only: Cons.IH [OF d] map_of_dict_set)
  also have "\<dots> = map_of d ++ map_of (x # data)"
  proof -
    have kn: "map_of data k = None"
      using k by (simp add: map_of_eq_None_iff)
    show ?thesis
      by (rule ext) (simp add: x map_add_def kn split: option.splits)
  qed
  finally show ?case .
qed

lemma distinct_dict_update:
  "distinct (map fst d) \<Longrightarrow> distinct (map fst (dict_update d data))"
proof (induction data arbitrary: d)
  case Nil
  then show ?case by (simp add: dict_update_def)
next
  case (Cons x data)
  obtain k v where x: "x = (k, v)" by (cases x)
  have "dict_update d (x # data) = dict_update (dict_set d k v) data"
    by (simp add: dict_update_def x)
  with Cons.IH [OF distinct_dict_set [OF Cons.prems, of k v]] show ?case
    by simp
qed


lemma union_update_snoc:
  "union_update (rs @ [r]) f =
     (case map_of r f of Some v \<Rightarrow> Some v | None \<Rightarrow> union_update rs f)"
proof -
  have "union_update (rs @ [r]) = union_update rs ++ map_of r"
    by (simp add: union_update_def)
  then show ?thesis
    by (simp add: map_add_def split: option.splits)
qed

lemma text_ratio_update:
  assumes "text_ratio old" and "text_ratio data" and "distinct (map fst data)"
  shows "text_ratio (dict_update old data)"
proof -
  have m: "map_of (dict_update old data) ''Overall_Average_Premium_Paid'' =
      (case map_of data ''Overall_Average_Premium_Paid'' of None \<Rightarrow> map_of old ''Overall_Average_Premium_Paid'' | Some v \<Rightarrow> Some v)"
    by (simp add: map_of_dict_update [OF assms(3)] map_add_def)
  show ?thesis
  proof (cases "map_of data ''Overall_Average_Premium_Paid''")
    case None
    with assms(1) show ?thesis
      unfolding text_ratio_def m by simp
  next
    case (Some v)
    with assms(2) show ?thesis
      unfolding text_ratio_def m by simp
  qed
qed

lemma sem_dict_set: "sem (dict_set td town r) = (sem td)(town \<mapsto> map_of r)"
  by (rule ext) (simp add: sem_def map_of_dict_set)

lemma merge_one:
  assumes "acc_ok acc" and "distinct (map fst data)" and "text_ratio data"
  shows "acc_ok (case map_of acc town of
                   Some old \<Rightarrow> dict_set acc town (dict_update old data)
                 | None \<Rightarrow> dict_set acc town data) \<and>
         sem (case map_of acc town of
                   Some old \<Rightarrow> dict_set acc town (dict_update old data)
                 | None \<Rightarrow> dict_set acc town data) =
           (sem acc)(town \<mapsto> base (sem acc town) ++ map_of data)"
proof (cases "map_of acc town")
  case None
  have "acc_ok (dict_set acc town data)"
    using assms by (auto simp: acc_ok_def distinct_dict_set map_of_dict_set)
  then show ?thesis
    using None by (simp add: sem_dict_set sem_def base_def)
next
  case (Some old)
  with assms(1) have old: "distinct (map fst old)" "text_ratio old"
    by (auto simp: acc_ok_def)
  have "acc_ok (dict_set acc town (dict_update old data))"
    using assms old
    by (auto simp: acc_ok_def distinct_dict_set map_of_dict_set distinct_dict_update
        text_ratio_update)
  then show ?thesis
    using Some by (simp add: sem_dict_set sem_def base_def map_of_dict_update [OF assms(2)])
qed

lemma merge_metric_sem:
  "acc_ok acc \<Longrightarrow> wf_feed cur \<Longrightarrow>
   acc_ok (merge_metric acc cur) \<and>
   sem (merge_metric acc cur) t =
     (case map_of cur t of
        None \<Rightarrow> sem acc t
      | Some data \<Rightarrow> Some (base (sem acc t) ++ map_of data))"
proof (induction cur arbitrary: acc)
  case Nil
  then show ?case by (simp add: merge_metric_def)
next
  case (Cons x cur)
  obtain town data where x: "x = (town, data)" by (cases x)
  let ?acc1 = "case map_of acc town of
                 Some old \<Rightarrow> dict_set acc town (dict_update old data)
               | None \<Rightarrow> dict_set acc town data"
  from Cons.prems(2) x have data: "distinct (map fst data)" "text_ratio data"
    and town: "town \<notin> fst ` set cur" and cur: "wf_feed cur"
    by (auto simp: wf_feed_def)
  from merge_one [OF Cons.prems(1) data, of town]
  have ok1: "acc_ok ?acc1"
    and sem1: "sem ?acc1 = (sem acc)(town \<mapsto> base (sem acc town) ++ map_of data)"
    by blast+
  have unfold: "merge_metric acc (x # cur) = merge_metric ?acc1 cur"
    by (simp add: merge_metric_def x)
  have none: "map_of cur town = None"
    using town by (simp add: map_of_eq_None_iff)
  have s1: "sem ?acc1 t = (if t = town then Some (base (sem acc town) ++ map_of data) else sem acc t)"
    by (simp only: sem1 fun_upd_apply)
  from Cons.IH [OF ok1 cur]
  have ok: "acc_ok (merge_metric ?acc1 cur)"
    and ih: "sem (merge_metric ?acc1 cur) t =
      (case map_of cur t of
         None \<Rightarrow> sem ?acc1 t
       | Some d \<Rightarrow> Some (base (sem ?acc1 t) ++ map_of d))"
    by blast+
  show ?case
  proof (cases "t = town")
    case True
    with ok ih none show ?thesis
      unfolding unfold s1 by (simp add: x)
  next
    case False
    with ok ih show ?thesis
      unfolding unfold s1 by (simp add: x)
  qed
qed

lemma town_records_Cons:
  "town_records (fd # feeds) t =
     (case map_of fd t of None \<Rightarrow> town_records feeds t | Some r \<Rightarrow> r # town_records feeds t)"
  by (simp add: town_records_def map_filter_def split: option.splits)

lemma merge_fold_sem:
  "acc_ok acc \<Longrightarrow> \<forall>fd \<in> set feeds. wf_feed fd \<Longrightarrow>
   acc_ok (foldl merge_metric acc feeds) \<and>
   sem (foldl merge_metric acc feeds) t =
     (if town_records feeds t = [] then sem acc t
      else Some (foldl (\<lambda>m r. m ++ map_of r) (base (sem acc t)) (town_records feeds t)))"
proof (induction feeds arbitrary: acc)
  case Nil
  then show ?case by (simp add: town_records_def)
next
  case (Cons fd feeds)
  from Cons.prems(2) have fd: "wf_feed fd" and rest: "\<forall>fd \<in> set feeds. wf_feed fd"
    by simp_all
  from merge_metric_sem [OF Cons.prems(1) fd, of t]
  have ok1: "acc_ok (merge_metric acc fd)"
    and sem1: "sem (merge_metric acc fd) t =
      (case map_of fd t of
         None \<Rightarrow> sem acc t
       | Some data \<Rightarrow> Some (base (sem acc t) ++ map_of data))"
    by blast+
  from Cons.IH [OF ok1 rest] show ?case
    by (auto simp: town_records_Cons sem1 base_def split: option.splits)
qed

lemma acc_ok_empty: "acc_ok []"
  by (simp add: acc_ok_def)

lemma merge_all_sem:
  assumes "\<forall>fd \<in> set feeds. wf_feed fd"
  shows "acc_ok (merge_all feeds)"
    and "sem (merge_all feeds) t =
      (if town_records feeds t = [] then None else Some (union_update (town_records feeds t)))"
  using merge_fold_sem [OF acc_ok_empty assms, of t]
  by (simp_all add: merge_all_def union_update_def sem_def base_def)


lemma float_sub_1_minus_one: "float_sub_1 f = minus_one f"
  by (cases f) (simp_all add: minus_one_def float_sub_1.simps)

lemma calc_premium_text:
  assumes "text_ratio data"
  shows "\<exists>data'. calc_premium data = Inr data' \<and> map_of data' = premium_spec (map_of data)"
proof (cases "map_of data ''Overall_Average_Premium_Paid''")
  case None
  then show ?thesis
    by (simp add: calc_premium_def RATIO_KEY_def dict_get_def premium_spec_def)
next
  case (Some v)
  with assms obtain s where v: "v = PStr s"
    by (auto simp: text_ratio_def split: pyval.splits)
  show ?thesis
  proof (cases "py_float s")
    case None
    then show ?thesis
      using Some v
      by (simp add: calc_premium_def RATIO_KEY_def dict_get_def premium_spec_def
          map_of_dict_set)
  next
    case (Some f)
    then show ?thesis
      using \<open>map_of data ''Overall_Average_Premium_Paid'' = Some v\<close> v
      by (simp add: calc_premium_def RATIO_KEY_def dict_get_def premium_spec_def
          map_of_dict_set float_sub_1_minus_one)
  qed
qed

lemma calc_all_text:
  "\<forall>(t, r) \<in> set td. text_ratio r \<Longrightarrow>
   \<exists>out. calc_all td = Inr out \<and> (\<forall>t. sem out t = map_option premium_spec (sem td t))"
proof (induction td)
  case Nil
  then show ?case by (simp add: sem_def)
next
  case (Cons x td)
  obtain town data where x: "x = (town, data)" by (cases x)
  from Cons.prems x have "text_ratio data" and rest: "\<forall>(t, r) \<in> set td. text_ratio r"
    by auto
  from calc_premium_text [OF this(1)] obtain data' where
    d: "calc_premium data = Inr data'" "map_of data' = premium_spec (map_of data)"
    by blast
  from Cons.IH [OF rest] obtain out where
    o: "calc_all td = Inr out" "\<forall>t. sem out t = map_option premium_spec (sem td t)"
    by blast
  have "calc_all (x # td) = Inr ((town, data') # out)"
    by (simp add: x d(1) o(1))
  moreover have "\<forall>t. sem ((town, data') # out) t = map_option premium_spec (sem (x # td) t)"
    using o(2) d(2) by (simp add: sem_def x)
  ultimately show ?case
    by blast
qed

lemma sem_None: "sem td t = None \<longleftrightarrow> map_of td t = None"
  by (simp add: sem_def)

lemma sem_Some: "sem td t = Some m \<longleftrightarrow> (\<exists>r. map_of td t = Some r \<and> map_of r = m)"
  by (auto simp: sem_def)

lemma merge_calc_general:
  assumes "\<forall>fd \<in> set feeds. wf_feed fd"
  shows "\<exists>out. merge_and_calc feeds = Inr out \<and>
     (\<forall>t. (town_records feeds t = [] \<longrightarrow>
            map_of (merge_all feeds) t = None \<and> map_of out t = None) \<and>
          (town_records feeds t \<noteq> [] \<longrightarrow>
            (\<exists>r. map_of (merge_all feeds) t = Some r \<and>
                 map_of r = union_update (town_records feeds t)) \<and>
            (\<exists>r. map_of out t = Some r \<and>
                 map_of r = premium_spec (union_update (town_records feeds t)))))"
proof -
  note ok = merge_all_sem(1) [OF assms]
  note merged = merge_all_sem(2) [OF assms]
  have "\<forall>(t, r) \<in> set (merge_all feeds). text_ratio r"
    using ok by (auto simp: acc_ok_def)
  from calc_all_text [OF this] obtain out where
    run: "calc_all (merge_all feeds) = Inr out"
    and out: "\<forall>t. sem out t = map_option premium_spec (sem (merge_all feeds) t)"
    by blast
  have "\<forall>t. (town_records feeds t = [] \<longrightarrow>
            map_of (merge_all feeds) t = None \<and> map_of out t = None) \<and>
          (town_records feeds t \<noteq> [] \<longrightarrow>
            (\<exists>r. map_of (merge_all feeds) t = Some r \<and>
                 map_of r = union_update (town_records feeds t)) \<and>
            (\<exists>r. map_of out t = Some r \<and>
                 map_of r = premium_spec (union_update (town_records feeds t))))"
  proof (intro allI conjI impI)
    fix t assume e: "town_records feeds t = []"
    then have m: "sem (merge_all feeds) t = None"
      by (simp add: merged)
    then show "map_of (merge_all feeds) t = None"
      by (simp add: sem_None)
    from out m have "sem out t = None" by simp
    then show "map_of out t = None"
      by (simp add: sem_None)
  next
    fix t assume e: "town_records feeds t \<noteq> []"
    then have m: "sem (merge_all feeds) t = Some (union_update (town_records feeds t))"
      by (simp add: merged)
    then show "\<exists>r. map_of (merge_all feeds) t = Some r \<and>
        map_of r = union_update (town_records feeds t)"
      by (simp add: sem_Some)
    from out m have "sem out t = Some (premium_spec (union_update (town_records feeds t)))"
      by simp
    then show "\<exists>r. map_of out t = Some r \<and>
        map_of r = premium_spec (union_update (town_records feeds t))"
      by (simp add: sem_Some)
  qed
  with run show ?thesis
    by (auto simp: merge_and_calc_def)
qed

lemma example_feeds_wf: "\<forall>fd \<in> set example_feeds. wf_feed fd"
  by (simp add: example_feeds_def wf_feed_def final_entry_def text_ratio_def)

lemma example_feeds_records:
  "town_records example_feeds ''Astoria'' =
     [final_entry ''Median_DOM'' ''Astoria'' ''03/31/2025'' ''300'',
      final_entry ''Overall_Average_Premium_Paid'' ''Astoria'' ''03/31/2025'' ''1.03'']"
  by (simp add: town_records_def map_filter_def example_feeds_def)

lemma merge_example: "merge_and_calc example_feeds = Inr example_merged"
  by (simp add: merge_and_calc_def merge_all_def merge_metric_def dict_update_def
      example_feeds_def final_entry_def dict_eval calc_premium_def RATIO_KEY_def
      float_examples example_merged_def)

text \<open>
  Claim C8. For well-formed feed results, the merge and calculation steps end without an
  exception. A neighbourhood that no feed reports has no record. Every other
  neighbourhood has one merged record whose fields are the union of the fields of its
  records, the value of a field being the one of the last feed that defines it; after the
  calculation step the field \<open>Overall_Average_Premium_Paid\<close>, when present, holds the
  stored text parsed as a number minus 1.0, or \<open>None\<close> when the text is not a number.
  The difference is not rounded to 4 places: the stored text \<open>1.03\<close> gives the double
  0.030000000000000027, and the stored text \<open>n/a\<close> gives \<open>None\<close>.
\<close>

theorem merge_update_wins:
  "((\<forall>fd \<in> set feeds. wf_feed fd) \<longrightarrow>
     (\<exists>out. merge_and_calc feeds = Inr out \<and>
       (\<forall>t. (town_records feeds t = [] \<longrightarrow>
              map_of (merge_all feeds) t = None \<and> map_of out t = None) \<and>
            (town_records feeds t \<noteq> [] \<longrightarrow>
              (\<exists>r. map_of (merge_all feeds) t = Some r \<and>
                   map_of r = union_update (town_records feeds t)) \<and>
              (\<exists>r. map_of out t = Some r \<and>
                   map_of r = premium_spec (union_update (town_records feeds t))))))) \<and>
   merge_and_calc example_feeds = Inr example_merged"
  using merge_calc_general [of feeds] merge_example
  by blast

theorem merge_update_wins_witness:
  "town_records example_feeds ''Astoria'' \<noteq> [] \<and>
   (\<exists>out. merge_and_calc example_feeds = Inr out \<and>
     (\<exists>r. map_of (merge_all example_feeds) ''Astoria'' = Some r \<and>
          map_of r = union_update (town_records example_feeds ''Astoria'')) \<and>
     (\<exists>r. map_of out ''Astoria'' = Some r \<and>
          map_of r = premium_spec (union_update (town_records example_feeds ''Astoria'')))) \<and>
   map_of example_merged ''Astoria'' =
     Some [(''Date'', PStr ''03/31/2025''), (''Town'', PStr ''Astoria''),
           (''Region'', PStr ''New York City''), (''Median_DOM'', PStr ''300''),
           (''Overall_Average_Premium_Paid'',
            PFloat (Finite (135107988821115 / 4503599627370496)))]"
proof -
  have ne: "town_records example_feeds ''Astoria'' \<noteq> []"
    by (simp add: example_feeds_records)
  have m: "map_of example_merged ''Astoria'' =
     Some [(''Date'', PStr ''03/31/2025''), (''Town'', PStr ''Astoria''),
           (''Region'', PStr ''New York City''), (''Median_DOM'', PStr ''300''),
           (''Overall_Average_Premium_Paid'',
            PFloat (Finite (135107988821115 / 4503599627370496)))]"
    by (simp add: example_merged_def)
  from merge_update_wins [of example_feeds] example_feeds_wf ne m show ?thesis
    by blast
qed

end
